theory Spec2Isabelle
  imports Complex_Main "HOL-Library.Word"
begin

unbundle bit_operations_syntax

section \<open>Values shared by the JavaScript services\<close>

text \<open>
  Bytes are 8-bit words. An instant is a clock reading in milliseconds since the epoch, the
  value of \<^verbatim>\<open>Date.now()\<close>. A thrown JavaScript \<^verbatim>\<open>Error\<close> is a value carrying its message.
  Object literals are association lists from member names to JSON values, in the order the
  source writes the members; \<open>JDate t\<close> stands for the ISO-8601 text of the instant \<open>t\<close>
  (\<^verbatim>\<open>new Date().toISOString()\<close>).
\<close>

type_synonym byte = "8 word"

type_synonym word32 = "32 word"

type_synonym instant = nat

datatype js_error = Error string

datatype json = JUndefined | JNull | JBool bool | JNum int | JStr string | JDate instant
  | JObj "(string \<times> json) list" | JArr "json list"

type_synonym obj = "(string \<times> json) list"

text \<open>Member access \<^verbatim>\<open>o.k\<close>: a missing member reads as \<^verbatim>\<open>undefined\<close>.\<close>

definition member :: "obj \<Rightarrow> string \<Rightarrow> json" where
  "member ob k = (case map_of ob k of None \<Rightarrow> JUndefined | Some v \<Rightarrow> v)"

subsection \<open>Numbers and bytes as text\<close>

text \<open>
  \<open>dec n\<close> is the decimal text JavaScript produces when a non-negative integer is
  concatenated to a string (\<^verbatim>\<open>'mock_tx_' + Date.now()\<close>), and the text of Go's \<^verbatim>\<open>%d\<close>.
  \<open>hex bs\<close> is \<^verbatim>\<open>Buffer.toString('hex')\<close> and \<^verbatim>\<open>digest('hex')\<close>: two lowercase
  hexadecimal digits for every byte.
\<close>

definition digit_char :: "nat \<Rightarrow> char" where
  "digit_char d = ''0123456789'' ! d"

fun dec :: "nat \<Rightarrow> string" where
  "dec n = (if n < 10 then [digit_char n] else dec (n div 10) @ [digit_char (n mod 10)])"

declare dec.simps [simp del]

definition hex_digit :: "nat \<Rightarrow> char" where
  "hex_digit d = ''0123456789abcdef'' ! d"

definition hex_byte :: "byte \<Rightarrow> string" where
  "hex_byte b = [hex_digit (unat b div 16), hex_digit (unat b mod 16)]"

definition hex :: "byte list \<Rightarrow> string" where
  "hex bs = concat (map hex_byte bs)"

definition is_lower_hex :: "char \<Rightarrow> bool" where
  "is_lower_hex c = (c \<in> set ''0123456789abcdef'')"

subsection \<open>SHA-256\<close>

text \<open>
  The digest \<^verbatim>\<open>crypto.createHash('sha256').update(buffer).digest()\<close> computes, as
  FIPS 180-4 defines it: the message is padded to a multiple of 64 bytes, and every
  block of sixteen big-endian words is expanded to 64 words and compressed into the
  state of eight words.
\<close>

definition rotr :: "nat \<Rightarrow> word32 \<Rightarrow> word32" where
  "rotr n x = word_rotr n x"

definition Ch :: "word32 \<Rightarrow> word32 \<Rightarrow> word32 \<Rightarrow> word32" where
  "Ch x y z = (x AND y) XOR (NOT x AND z)"

definition Maj :: "word32 \<Rightarrow> word32 \<Rightarrow> word32 \<Rightarrow> word32" where
  "Maj x y z = (x AND y) XOR (x AND z) XOR (y AND z)"

definition Sigma0 :: "word32 \<Rightarrow> word32" where
  "Sigma0 x = rotr 2 x XOR rotr 13 x XOR rotr 22 x"

definition Sigma1 :: "word32 \<Rightarrow> word32" where
  "Sigma1 x = rotr 6 x XOR rotr 11 x XOR rotr 25 x"

definition sigma0 :: "word32 \<Rightarrow> word32" where
  "sigma0 x = rotr 7 x XOR rotr 18 x XOR drop_bit 3 x"

definition sigma1 :: "word32 \<Rightarrow> word32" where
  "sigma1 x = rotr 17 x XOR rotr 19 x XOR drop_bit 10 x"

definition K256 :: "word32 list" where
  "K256 = [0x428A2F98, 0x71374491, 0xB5C0FBCF, 0xE9B5DBA5, 0x3956C25B, 0x59F111F1, 0x923F82A4, 0xAB1C5ED5,
          0xD807AA98, 0x12835B01, 0x243185BE, 0x550C7DC3, 0x72BE5D74, 0x80DEB1FE, 0x9BDC06A7, 0xC19BF174,
          0xE49B69C1, 0xEFBE4786, 0x0FC19DC6, 0x240CA1CC, 0x2DE92C6F, 0x4A7484AA, 0x5CB0A9DC, 0x76F988DA,
          0x983E5152, 0xA831C66D, 0xB00327C8, 0xBF597FC7, 0xC6E00BF3, 0xD5A79147, 0x06CA6351, 0x14292967,
          0x27B70A85, 0x2E1B2138, 0x4D2C6DFC, 0x53380D13, 0x650A7354, 0x766A0ABB, 0x81C2C92E, 0x92722C85,
          0xA2BFE8A1, 0xA81A664B, 0xC24B8B70, 0xC76C51A3, 0xD192E819, 0xD6990624, 0xF40E3585, 0x106AA070,
          0x19A4C116, 0x1E376C08, 0x2748774C, 0x34B0BCB5, 0x391C0CB3, 0x4ED8AA4A, 0x5B9CCA4F, 0x682E6FF3,
          0x748F82EE, 0x78A5636F, 0x84C87814, 0x8CC70208, 0x90BEFFFA, 0xA4506CEB, 0xBEF9A3F7, 0xC67178F2]"

type_synonym hash_state = "word32 \<times> word32 \<times> word32 \<times> word32 \<times> word32 \<times> word32 \<times> word32 \<times> word32"

definition H0 :: hash_state where
  "H0 = (0x6A09E667, 0xBB67AE85, 0x3C6EF372, 0xA54FF53A, 0x510E527F, 0x9B05688C, 0x1F83D9AB, 0x5BE0CD19)"

definition word_of_bytes :: "byte list \<Rightarrow> word32" where
  "word_of_bytes bs = fold (\<lambda>b w. push_bit 8 w OR ucast b) bs 0"

definition bytes_of_word :: "word32 \<Rightarrow> byte list" where
  "bytes_of_word w = [ucast (drop_bit 24 w), ucast (drop_bit 16 w), ucast (drop_bit 8 w), ucast w]"

definition bytes_of_length :: "nat \<Rightarrow> byte list" where
  "bytes_of_length n =
     map (\<lambda>i. ucast (drop_bit (8 * i) (of_nat n :: 64 word))) [7, 6, 5, 4, 3, 2, 1, 0]"

definition pad :: "byte list \<Rightarrow> byte list" where
  "pad m = m @ [0x80] @ replicate ((119 - length m mod 64) mod 64) 0 @ bytes_of_length (8 * length m)"

fun blocks :: "nat \<Rightarrow> byte list \<Rightarrow> byte list list" where
  "blocks 0 bs = []"
| "blocks (Suc n) bs = take 64 bs # blocks n (drop 64 bs)"

fun words :: "nat \<Rightarrow> byte list \<Rightarrow> word32 list" where
  "words 0 bs = []"
| "words (Suc n) bs = word_of_bytes (take 4 bs) # words n (drop 4 bs)"

fun extend :: "nat \<Rightarrow> word32 list \<Rightarrow> word32 list" where
  "extend 0 ws = ws"
| "extend (Suc n) ws =
     extend n (ws @ [sigma1 (ws ! (length ws - 2)) + ws ! (length ws - 7) +
                     sigma0 (ws ! (length ws - 15)) + ws ! (length ws - 16)])"

definition sha_round :: "word32 \<times> word32 \<Rightarrow> hash_state \<Rightarrow> hash_state" where
  "sha_round kw st =
     (case st of (a, b, c, d, e, f, g, h) \<Rightarrow>
        (let t1 = h + Sigma1 e + Ch e f g + fst kw + snd kw;
             t2 = Sigma0 a + Maj a b c
         in (t1 + t2, a, b, c, d + t1, e, f, g)))"

definition add_state :: "hash_state \<Rightarrow> hash_state \<Rightarrow> hash_state" where
  "add_state s t =
     (case s of (a, b, c, d, e, f, g, h) \<Rightarrow>
        case t of (a', b', c', d', e', f', g', h') \<Rightarrow>
          (a + a', b + b', c + c', d + d', e + e', f + f', g + g', h + h'))"

definition compress :: "byte list \<Rightarrow> hash_state \<Rightarrow> hash_state" where
  "compress block st = add_state st (fold sha_round (zip K256 (extend 48 (words 16 block))) st)"

definition sha256 :: "byte list \<Rightarrow> byte list" where
  "sha256 m =
     (case fold compress (blocks (length (pad m) div 64) (pad m)) H0 of
        (a, b, c, d, e, f, g, h) \<Rightarrow> concat (map bytes_of_word [a, b, c, d, e, f, g, h]))"

section \<open>The deed ledger (chaincode \<^verbatim>\<open>land_registry.go\<close>)\<close>

subsection \<open>Records and world state\<close>

text \<open>
  The Go structs \<^verbatim>\<open>Deed\<close> and \<^verbatim>\<open>Transfer\<close>. Go times are clock readings in nanoseconds;
  \<^verbatim>\<open>VerifiedAt\<close> is a pointer, hence optional. The fields \<^verbatim>\<open>ID\<close> and \<^verbatim>\<open>CreatedAt\<close> of
  \<^verbatim>\<open>Transfer\<close> are written \<open>TransferID\<close> and \<open>TransferCreatedAt\<close>, since a record field
  name is global.
\<close>

type_synonym gotime = nat

record Deed =
  ID :: string
  DeedNumber :: string
  OwnerID :: string
  PropertyAddress :: string
  PropertyType :: string
  LandArea :: real
  LandAreaUnit :: string
  IPFSHash :: string
  Status :: string
  VerificationStatus :: string
  CreatedAt :: gotime
  UpdatedAt :: gotime
  VerifiedAt :: "gotime option"
  VerifiedBy :: string

record Transfer =
  TransferID :: string
  DeedID :: string
  FromOwnerID :: string
  ToOwnerID :: string
  TransferReason :: string
  TransferDate :: gotime
  TransferCreatedAt :: gotime

text \<open>
  The world state maps keys to stored byte strings. Three kinds of value are ever written:
  the JSON of a deed, the JSON of a transfer, and the raw bytes of a deed identifier (the
  value of a deed-number index entry).
\<close>

datatype entry = DeedJSON Deed | TransferJSON Transfer | RawBytes string

type_synonym world = "string \<rightharpoonup> entry"

subsection \<open>The chaincode stub\<close>

text \<open>
  A chaincode function runs against a stub: \<^verbatim>\<open>GetState\<close> reads the committed world state,
  \<^verbatim>\<open>PutState\<close> adds to the transaction's write set. The write set is applied to the world,
  in order, only when the function returns no error; a function that returns an error
  commits nothing. \<^verbatim>\<open>PutState\<close> rejects the empty key. \<^verbatim>\<open>CreateCompositeKey\<close> rejects an
  object type or attribute that contains U+0000 and otherwise joins them, each followed
  by U+0000, behind a leading U+0000 (strings are taken to be valid UTF-8 without
  U+10FFFF, which it rejects too). Reading the state is taken not to fail.
\<close>

datatype error =
    UnmarshalFailed
  | AlreadyExists string
  | NotFound string
  | OwnershipMismatch
  | PutStateFailed
  | CompositeKeyFailed

record stub =
  state :: world
  writes :: "(string \<times> entry) list"

definition GetState :: "stub \<Rightarrow> string \<Rightarrow> entry option" where
  "GetState s key = state s key"

definition PutState :: "string \<Rightarrow> entry \<Rightarrow> stub \<Rightarrow> error + stub" where
  "PutState key v s =
     (if key = [] then Inl PutStateFailed else Inr (s\<lparr>writes := writes s @ [(key, v)]\<rparr>))"

definition CreateCompositeKey :: "string \<Rightarrow> string list \<Rightarrow> error + string" where
  "CreateCompositeKey objectType attributes =
     (if list_ex (\<lambda>a. CHR 0x00 \<in> set a) (objectType # attributes) then Inl CompositeKeyFailed
      else Inr (CHR 0x00 # objectType @ CHR 0x00 # concat (map (\<lambda>a. a @ [CHR 0x00]) attributes)))"

definition commit :: "world \<Rightarrow> (string \<times> entry) list \<Rightarrow> world" where
  "commit w ws = fold (\<lambda>kv m. m(fst kv \<mapsto> snd kv)) ws w"

text \<open>One transaction: the returned error, if any, and the world state after it.\<close>

definition invoke :: "(stub \<Rightarrow> error option \<times> stub) \<Rightarrow> world \<Rightarrow> error option \<times> world" where
  "invoke f w =
     (case f \<lparr>state = w, writes = []\<rparr> of
        (None, s) \<Rightarrow> (None, commit w (writes s))
      | (Some e, s) \<Rightarrow> (Some e, w))"

subsection \<open>Chaincode functions\<close>

text \<open>
  \<^verbatim>\<open>json.Unmarshal\<close> into a \<^verbatim>\<open>Deed\<close>. A stored deed decodes to itself. The JSON of a
  transfer is an object too: it decodes to a deed that takes the members the two structs
  share, \<^verbatim>\<open>id\<close> and \<^verbatim>\<open>createdAt\<close>, and has zero values elsewhere. The raw bytes of an
  index entry are an identifier, taken not to be JSON text, and fail to decode.
\<close>

definition zero_Deed :: Deed where
  "zero_Deed = \<lparr>ID = [], DeedNumber = [], OwnerID = [], PropertyAddress = [],
     PropertyType = [], LandArea = 0, LandAreaUnit = [], IPFSHash = [], Status = [],
     VerificationStatus = [], CreatedAt = 0, UpdatedAt = 0, VerifiedAt = None,
     VerifiedBy = []\<rparr>"

fun unmarshal_Deed :: "entry \<Rightarrow> Deed option" where
  "unmarshal_Deed (DeedJSON d) = Some d"
| "unmarshal_Deed (TransferJSON t) =
     Some (zero_Deed\<lparr>ID := TransferID t, CreatedAt := TransferCreatedAt t\<rparr>)"
| "unmarshal_Deed (RawBytes b) = None"

text \<open>\<^verbatim>\<open>DeedExists\<close> and \<^verbatim>\<open>GetDeed\<close>.\<close>

definition DeedExists :: "stub \<Rightarrow> string \<Rightarrow> bool" where
  "DeedExists s deedID = (GetState s deedID \<noteq> None)"

definition GetDeed :: "stub \<Rightarrow> string \<Rightarrow> error + Deed" where
  "GetDeed s deedID =
     (case GetState s deedID of
        None \<Rightarrow> Inl (NotFound deedID)
      | Some deedJSON \<Rightarrow>
          (case unmarshal_Deed deedJSON of
             None \<Rightarrow> Inl UnmarshalFailed
           | Some deed \<Rightarrow> Inr deed))"

text \<open>
  \<^verbatim>\<open>CreateDeed(ctx, deedData)\<close>. The argument is the decoded \<^verbatim>\<open>deedData\<close>, \<open>None\<close> when
  the text does not decode; \<open>now\<close> is the reading of \<^verbatim>\<open>time.Now()\<close>.
\<close>

definition CreateDeed :: "gotime \<Rightarrow> Deed option \<Rightarrow> stub \<Rightarrow> error option \<times> stub" where
  "CreateDeed now deedData s =
     (case deedData of
        None \<Rightarrow> (Some UnmarshalFailed, s)
      | Some deed0 \<Rightarrow>
          if DeedExists s (ID deed0) then (Some (AlreadyExists (ID deed0)), s)
          else
            (let deed = deed0\<lparr>CreatedAt := now, UpdatedAt := now, Status := ''pending'',
                              VerificationStatus := ''pending''\<rparr>
             in case PutState (ID deed) (DeedJSON deed) s of
                  Inl e \<Rightarrow> (Some e, s)
                | Inr s1 \<Rightarrow>
                    (case CreateCompositeKey ''deedNumber'' [DeedNumber deed] of
                       Inl e \<Rightarrow> (Some e, s1)
                     | Inr deedNumberKey \<Rightarrow>
                         (case PutState deedNumberKey (RawBytes (ID deed)) s1 of
                            Inl e \<Rightarrow> (Some e, s1)
                          | Inr s2 \<Rightarrow> (None, s2)))))"

text \<open>\<^verbatim>\<open>GetDeedByNumber(ctx, deedNumber)\<close>.\<close>

definition GetDeedByNumber :: "stub \<Rightarrow> string \<Rightarrow> error + Deed" where
  "GetDeedByNumber s deedNumber =
     (case CreateCompositeKey ''deedNumber'' [deedNumber] of
        Inl e \<Rightarrow> Inl e
      | Inr deedNumberKey \<Rightarrow>
          (case GetState s deedNumberKey of
             None \<Rightarrow> Inl (NotFound deedNumber)
           | Some (RawBytes deedIDBytes) \<Rightarrow> GetDeed s deedIDBytes
           | Some other \<Rightarrow> Inl UnmarshalFailed))"

text \<open>
  \<^verbatim>\<open>TransferDeed(ctx, transferData)\<close>. \<^verbatim>\<open>time.Now()\<close> is read three times: \<open>t1\<close> stamps
  the deed, the seconds of \<open>t2\<close> go into the transfer identifier, \<open>t3\<close> stamps the
  transfer record.
\<close>

definition Unix :: "gotime \<Rightarrow> nat" where
  "Unix t = t div 1000000000"

definition transfer_key :: "string \<Rightarrow> gotime \<Rightarrow> string" where
  "transfer_key deedID t = ''transfer_'' @ deedID @ ''_'' @ dec (Unix t)"

definition TransferDeed ::
  "gotime \<Rightarrow> gotime \<Rightarrow> gotime \<Rightarrow> Transfer option \<Rightarrow> stub \<Rightarrow> error option \<times> stub" where
  "TransferDeed t1 t2 t3 transferData s =
     (case transferData of
        None \<Rightarrow> (Some UnmarshalFailed, s)
      | Some transfer \<Rightarrow>
          (case GetDeed s (DeedID transfer) of
             Inl e \<Rightarrow> (Some e, s)
           | Inr deed0 \<Rightarrow>
               if OwnerID deed0 \<noteq> FromOwnerID transfer then (Some OwnershipMismatch, s)
               else
                 (let deed = deed0\<lparr>OwnerID := ToOwnerID transfer, Status := ''transferred'',
                                   UpdatedAt := t1\<rparr>
                  in case PutState (DeedID transfer) (DeedJSON deed) s of
                       Inl e \<Rightarrow> (Some e, s)
                     | Inr s1 \<Rightarrow>
                         (let transfer' = transfer\<lparr>TransferID := transfer_key (DeedID transfer) t2,
                                                    TransferCreatedAt := t3\<rparr>
                          in case PutState (TransferID transfer') (TransferJSON transfer') s1 of
                               Inl e \<Rightarrow> (Some e, s1)
                             | Inr s2 \<Rightarrow> (None, s2)))))"

section \<open>Ledger Gateway (\<^verbatim>\<open>BlockchainService.js\<close>)\<close>

text \<open>
  \<^verbatim>\<open>this.contract\<close> is the handle of the live ledger. What the network does with a
  submitted or evaluated transaction is outside the repository's JavaScript, so the handle
  is a pair of functions over the world state: a submission may change the world and
  returns the payload text or throws; an evaluation only reads, and its payload is given
  already parsed (\<^verbatim>\<open>JSON.parse(result.toString())\<close>), a parse failure being one of its
  errors. The constructor sets \<^verbatim>\<open>contract\<close> to \<^verbatim>\<open>null\<close>; \<^verbatim>\<open>mockMode\<close> is set by
  \<^verbatim>\<open>initialize\<close> when the connection profile is missing or connecting fails, and is falsy
  otherwise.
\<close>

record contract =
  submitTransaction :: "string \<Rightarrow> json list \<Rightarrow> world \<Rightarrow> (js_error + string) \<times> world"
  evaluateTransaction :: "string \<Rightarrow> json list \<Rightarrow> world \<Rightarrow> js_error + obj"

record BlockchainService =
  mockMode :: bool
  contract :: "contract option"

text \<open>The \<^verbatim>\<open>TypeError\<close> of a method call on a handle that is \<^verbatim>\<open>null\<close>.\<close>

definition null_handle_error :: js_error where
  "null_handle_error = Error ''TypeError: Cannot read properties of null''"

text \<open>
  \<^verbatim>\<open>createDeed(deedData)\<close>. \<open>now\<close> is the reading of \<^verbatim>\<open>Date.now()\<close> and \<open>rnd\<close> the value
  of \<^verbatim>\<open>Math.floor(Math.random() * 1000)\<close>. A throw inside the \<^verbatim>\<open>try\<close> is logged and
  rethrown.
\<close>

definition createDeed ::
  "BlockchainService \<Rightarrow> instant \<Rightarrow> nat \<Rightarrow> obj \<Rightarrow> world \<Rightarrow> (js_error + obj) \<times> world" where
  "createDeed svc now rnd deedData w =
     (if mockMode svc then
        (Inr [(''transactionId'', JStr (''mock_tx_'' @ dec now)),
              (''blockNumber'', JNum (int rnd)),
              (''success'', JBool True)], w)
      else
        (case contract svc of
           None \<Rightarrow> (Inl null_handle_error, w)
         | Some c \<Rightarrow>
             (case submitTransaction c ''CreateDeed''
                     [member deedData ''deedNumber'', member deedData ''ownerId'',
                      member deedData ''propertyAddress'', member deedData ''documentHash'',
                      JObj deedData] w of
                (Inl e, w') \<Rightarrow> (Inl e, w')
              | (Inr result, w') \<Rightarrow>
                  (Inr [(''transactionId'', JStr result), (''success'', JBool True)], w'))))"

text \<open>\<^verbatim>\<open>getDeed(deedNumber)\<close>.\<close>

definition getDeed ::
  "BlockchainService \<Rightarrow> instant \<Rightarrow> string \<Rightarrow> world \<Rightarrow> js_error + obj" where
  "getDeed svc now deedNumber w =
     (if mockMode svc then
        Inr [(''deedNumber'', JStr deedNumber),
             (''owner'', JStr ''Mock Owner''),
             (''status'', JStr ''verified''),
             (''timestamp'', JDate now)]
      else
        (case contract svc of
           None \<Rightarrow> Inl null_handle_error
         | Some c \<Rightarrow> evaluateTransaction c ''GetDeed'' [JStr deedNumber] w))"

text \<open>\<^verbatim>\<open>verifyDeed(deedNumber, verificationData)\<close>.\<close>

definition verifyDeed ::
  "BlockchainService \<Rightarrow> instant \<Rightarrow> string \<Rightarrow> obj \<Rightarrow> world \<Rightarrow> (js_error + obj) \<times> world" where
  "verifyDeed svc now deedNumber verificationData w =
     (if mockMode svc then
        (Inr [(''transactionId'', JStr (''mock_verification_'' @ dec now)),
              (''verified'', JBool True),
              (''timestamp'', JDate now)], w)
      else
        (case contract svc of
           None \<Rightarrow> (Inl null_handle_error, w)
         | Some c \<Rightarrow>
             (case submitTransaction c ''VerifyDeed''
                     [JStr deedNumber, member verificationData ''verifierId'',
                      member verificationData ''verificationResult'',
                      JObj verificationData] w of
                (Inl e, w') \<Rightarrow> (Inl e, w')
              | (Inr result, w') \<Rightarrow>
                  (Inr [(''transactionId'', JStr result), (''verified'', JBool True)], w'))))"

text \<open>
  The identifier a write envelope carries, \<^verbatim>\<open>result.transactionId\<close>; \<^verbatim>\<open>undefined\<close> when the
  write threw.
\<close>

definition envelope_id :: "(js_error + obj) \<times> world \<Rightarrow> json" where
  "envelope_id res = (case fst res of Inl e \<Rightarrow> JUndefined | Inr env \<Rightarrow> member env ''transactionId'')"

section \<open>Document Store (\<^verbatim>\<open>IPFSService.js\<close>)\<close>

text \<open>
  \<^verbatim>\<open>this.ipfs\<close> is the client of the live node: \<open>ipfs_add\<close> returns the content
  identifier and the stored size or throws, \<open>ipfs_cat\<close> returns the chunks of a stored file
  or throws. \<^verbatim>\<open>this.initialized\<close> is false while the service runs as a mock. No method
  below assigns to a field of the service.
\<close>

record ipfs_client =
  ipfs_add :: "string \<Rightarrow> byte list \<Rightarrow> js_error + (string \<times> nat)"
  ipfs_cat :: "string \<Rightarrow> js_error + byte list list"

record IPFSService =
  ipfs :: "ipfs_client option"
  initialized :: bool

definition upload_result :: "string \<Rightarrow> nat \<Rightarrow> bool \<Rightarrow> obj" where
  "upload_result h n m =
     [(''hash'', JStr h), (''size'', JNum (int n)), (''path'', JStr (''/ipfs/'' @ h)),
      (''mock'', JBool m)]"

text \<open>
  \<^verbatim>\<open>uploadBuffer(buffer, filename)\<close>; \<open>rnd\<close> is the value of \<^verbatim>\<open>crypto.randomBytes(32)\<close>.
\<close>

definition uploadBuffer ::
  "IPFSService \<Rightarrow> byte list \<Rightarrow> byte list \<Rightarrow> string \<Rightarrow> js_error + obj" where
  "uploadBuffer svc rnd buffer filename =
     (if \<not> initialized svc then
        (let mockHash = ''Qm'' @ hex rnd in Inr (upload_result mockHash (length buffer) True))
      else
        (case ipfs svc of
           None \<Rightarrow> Inl null_handle_error
         | Some c \<Rightarrow>
             (case ipfs_add c filename buffer of
                Inl e \<Rightarrow> Inl e
              | Inr (cid, n) \<Rightarrow> Inr (upload_result cid n False))))"

text \<open>\<^verbatim>\<open>getFileBuffer(ipfsHash)\<close>.\<close>

definition getFileBuffer :: "IPFSService \<Rightarrow> string \<Rightarrow> js_error + byte list" where
  "getFileBuffer svc ipfsHash =
     (if \<not> initialized svc then Inl (Error ''IPFS not initialized - cannot retrieve file'')
      else
        (case ipfs svc of
           None \<Rightarrow> Inl null_handle_error
         | Some c \<Rightarrow>
             (case ipfs_cat c ipfsHash of
                Inl e \<Rightarrow> Inl e
              | Inr chunks \<Rightarrow> Inr (concat chunks))))"

text \<open>
  \<^verbatim>\<open>uploadFile(filePath)\<close>: the file is given by its path and its bytes
  (\<^verbatim>\<open>fs.statSync(filePath).size\<close> is their number); the live branch adds the bytes under
  the path's base name.
\<close>

definition basename :: "string \<Rightarrow> string" where
  "basename p = rev (takeWhile (\<lambda>c. c \<noteq> CHR ''/'') (rev p))"

definition uploadFile ::
  "IPFSService \<Rightarrow> byte list \<Rightarrow> string \<Rightarrow> byte list \<Rightarrow> js_error + obj" where
  "uploadFile svc rnd filePath fileBytes =
     (if \<not> initialized svc then
        (let mockHash = ''Qm'' @ hex rnd in Inr (upload_result mockHash (length fileBytes) True))
      else
        (case ipfs svc of
           None \<Rightarrow> Inl null_handle_error
         | Some c \<Rightarrow>
             (case ipfs_add c (basename filePath) fileBytes of
                Inl e \<Rightarrow> Inl e
              | Inr (cid, n) \<Rightarrow> Inr (upload_result cid n False))))"

section \<open>The relational store\<close>

text \<open>
  The tables the modelled routes read and write. \<^verbatim>\<open>users\<close>, \<^verbatim>\<open>deeds\<close> and
  \<^verbatim>\<open>verification_logs\<close> follow \<^verbatim>\<open>001_initial_schema.sql\<close>, the one schema in the
  sources that has the columns the routes name; of \<^verbatim>\<open>users\<close> only the identifiers matter
  (they are the targets of foreign keys). \<^verbatim>\<open>land_deeds\<close> and \<^verbatim>\<open>verification_requests\<close>
  are the tables of the verification routes; their schema is not part of the sources, so
  a row has the columns the queries name and the identifier is the primary key. A column
  that may be \<^verbatim>\<open>NULL\<close> is optional. The column \<^verbatim>\<open>ipfs_hash\<close> holds text: the driver
  sends the object \<^verbatim>\<open>uploadFile\<close> returned as its JSON text. The store is taken to be
  reachable: a query fails only on a value that does not fit its column or on a
  constraint.
\<close>

record deed_row =
  deed_id :: nat
  deed_number :: string
  title :: string
  description :: "string option"
  owner_id :: int
  property_address :: string
  survey_plan_number :: "string option"
  extent :: string
  boundaries :: "string option"
  document_hash :: "string option"
  ipfs_hash :: "string option"
  blockchain_transaction_id :: "string option"
  verification_status :: string
  created_by :: int
  verified_by :: "int option"
  created_at :: instant
  updated_at :: instant

record log_row =
  log_id :: nat
  log_deed_id :: int
  log_verified_by :: int
  verification_type :: string
  verification_result :: "string option"
  log_notes :: "string option"
  log_created_at :: instant

record land_deed_row =
  ld_id :: string
  ld_deed_number :: string
  ld_owner_id :: string
  ld_verification_status :: string

record request_row =
  request_id :: string
  request_deed_id :: string
  requester_id :: string
  request_type :: string
  request_details :: "string option"
  request_status :: string
  response_details :: "string option"
  processed_at :: "instant option"
  processed_by :: "string option"
  request_created_at :: instant

record database =
  users :: "int list"
  deeds :: "deed_row list"
  deeds_id_seq :: nat
  verification_logs :: "log_row list"
  logs_id_seq :: nat
  land_deeds :: "land_deed_row list"
  verification_requests :: "request_row list"

text \<open>The whole system: the relational store and the world state of the ledger.\<close>

record system =
  db :: database
  ledger :: world

text \<open>An HTTP response: the status code and the members of the JSON body.\<close>

datatype response = Response (response_status: nat) (response_body: obj)

subsection \<open>Column types\<close>

text \<open>
  A text fits a \<^verbatim>\<open>VARCHAR(n)\<close> column when it has at most \<open>n\<close> characters or the excess
  characters are all spaces; the store then keeps its first \<open>n\<close> characters. A text
  that does not fit makes the query fail before it touches a table or a sequence.
\<close>

definition fits :: "nat \<Rightarrow> string \<Rightarrow> bool" where
  "fits n s = list_all (\<lambda>c. c = CHR '' '') (drop n s)"

definition varchar :: "nat \<Rightarrow> string \<Rightarrow> string" where
  "varchar n s = take n s"

definition fits_opt :: "nat \<Rightarrow> string option \<Rightarrow> bool" where
  "fits_opt n v = (case v of None \<Rightarrow> True | Some s \<Rightarrow> fits n s)"

definition varchar_opt :: "nat \<Rightarrow> string option \<Rightarrow> string option" where
  "varchar_opt n v = (case v of None \<Rightarrow> None | Some s \<Rightarrow> Some (varchar n s))"

text \<open>
  An \<^verbatim>\<open>INTEGER\<close> column holds 32 bits; a parameter outside that range fails like a text
  that does not fit.
\<close>

definition int4 :: "int \<Rightarrow> bool" where
  "int4 i = (- 2147483648 \<le> i \<and> i \<le> 2147483647)"

subsection \<open>Request values and validators\<close>

text \<open>
  A request body is an object whose members are texts. \<open>str_of\<close> reads a member as a
  string and \<open>opt_text\<close> as a nullable parameter of a query. The validators are those of
  express-validator: \<^verbatim>\<open>notEmpty\<close>, \<^verbatim>\<open>isInt\<close> (an optional sign and digits),
  \<^verbatim>\<open>isIn\<close>, \<^verbatim>\<open>isLength({max})\<close>, \<^verbatim>\<open>isUUID\<close>; an absent member validates as the empty
  text.
\<close>

definition str_of :: "json \<Rightarrow> string" where
  "str_of v = (case v of JStr s \<Rightarrow> s | _ \<Rightarrow> [])"

definition opt_text :: "json \<Rightarrow> string option" where
  "opt_text v = (case v of JStr s \<Rightarrow> Some s | _ \<Rightarrow> None)"

definition notEmpty :: "json \<Rightarrow> bool" where
  "notEmpty v = (str_of v \<noteq> [])"

definition is_digit :: "char \<Rightarrow> bool" where
  "is_digit c = (c \<in> set ''0123456789'')"

definition digit_value :: "char \<Rightarrow> nat" where
  "digit_value c = of_char c - 48"

definition isInt :: "json \<Rightarrow> bool" where
  "isInt v =
     (case str_of v of
        [] \<Rightarrow> False
      | c # cs \<Rightarrow>
          if c = CHR ''-'' \<or> c = CHR ''+'' then cs \<noteq> [] \<and> list_all is_digit cs
          else list_all is_digit (c # cs))"

definition digits_value :: "string \<Rightarrow> nat" where
  "digits_value cs = fold (\<lambda>c n. 10 * n + digit_value c) cs 0"

text \<open>The integer a validated text denotes, as the store reads an \<^verbatim>\<open>INTEGER\<close> parameter.\<close>

definition int_of_text :: "json \<Rightarrow> int" where
  "int_of_text v =
     (case str_of v of
        [] \<Rightarrow> 0
      | c # cs \<Rightarrow>
          if c = CHR ''-'' then - int (digits_value cs)
          else if c = CHR ''+'' then int (digits_value cs)
          else int (digits_value (c # cs)))"

definition isIn :: "string list \<Rightarrow> json \<Rightarrow> bool" where
  "isIn allowed v = (str_of v \<in> set allowed)"

definition is_hex_digit :: "char \<Rightarrow> bool" where
  "is_hex_digit c = (c \<in> set ''0123456789abcdefABCDEF'')"

text \<open>Groups of hexadecimal digits of the given lengths, separated by hyphens.\<close>

fun hex_groups :: "nat list \<Rightarrow> string \<Rightarrow> bool" where
  "hex_groups [] s = False"
| "hex_groups [n] s = (length s = n \<and> list_all is_hex_digit s)"
| "hex_groups (n # m # ns) s =
     (length (take n s) = n \<and> list_all is_hex_digit (take n s) \<and>
      (case drop n s of
         [] \<Rightarrow> False
       | c # rest \<Rightarrow> c = CHR ''-'' \<and> hex_groups (m # ns) rest))"

text \<open>
  \<^verbatim>\<open>isUUID()\<close> without a version, as recent releases of the validator library have
  it: groups of 8, 4, 4, 4 and 12 hexadecimal digits in which the version digit (the
  first of the third group) is 1 to 8 and the variant digit (the first of the fourth
  group) is 8, 9, a or b; or the nil identifier; or the identifier of all \<^verbatim>\<open>f\<close>.
  The sources pin no release; older releases accept every text of that shape.
\<close>

definition isUUID :: "json \<Rightarrow> bool" where
  "isUUID v =
     (let s = str_of v in
      hex_groups [8, 4, 4, 4, 12] s \<and>
      ((s ! 14 \<in> set ''12345678'' \<and> s ! 19 \<in> set ''89abAB'') \<or>
       s = ''00000000-0000-0000-0000-000000000000'' \<or>
       list_all (\<lambda>c. c \<in> set ''fF-'') s))"

definition validation_error :: "string \<Rightarrow> json" where
  "validation_error msg = JObj [(''msg'', JStr msg)]"

subsection \<open>JSON text\<close>

text \<open>
  \<^verbatim>\<open>JSON.stringify\<close> on an object whose members are strings, integers, booleans or
  \<^verbatim>\<open>null\<close>, which is what the driver sends for an object given as a query parameter. A
  string is quoted, with the quotation mark, the backslash and the control characters
  escaped; a member that is \<^verbatim>\<open>undefined\<close> is left out.
\<close>

definition escape_char :: "char \<Rightarrow> string" where
  "escape_char c =
     (if c = CHR 0x22 then [CHR 0x5C, CHR 0x22]
      else if c = CHR 0x5C then [CHR 0x5C, CHR 0x5C]
      else if c = CHR 0x08 then [CHR 0x5C, CHR ''b'']
      else if c = CHR 0x09 then [CHR 0x5C, CHR ''t'']
      else if c = CHR 0x0A then [CHR 0x5C, CHR ''n'']
      else if c = CHR 0x0C then [CHR 0x5C, CHR ''f'']
      else if c = CHR 0x0D then [CHR 0x5C, CHR ''r'']
      else if (of_char c :: nat) < 32
      then [CHR 0x5C, CHR ''u'', CHR ''0'', CHR ''0'',
            hex_digit (of_char c div 16), hex_digit (of_char c mod 16)]
      else [c])"

definition quote :: "string \<Rightarrow> string" where
  "quote s = CHR 0x22 # concat (map escape_char s) @ [CHR 0x22]"

definition int_text :: "int \<Rightarrow> string" where
  "int_text i = (if i < 0 then CHR ''-'' # dec (nat (- i)) else dec (nat i))"

definition stringify_value :: "json \<Rightarrow> string" where
  "stringify_value v =
     (case v of
        JStr s \<Rightarrow> quote s
      | JNum i \<Rightarrow> int_text i
      | JBool b \<Rightarrow> (if b then ''true'' else ''false'')
      | _ \<Rightarrow> ''null'')"

fun commas :: "string list \<Rightarrow> string" where
  "commas [] = []"
| "commas [x] = x"
| "commas (x # y # zs) = x @ CHR '','' # commas (y # zs)"

definition stringify_flat :: "obj \<Rightarrow> string" where
  "stringify_flat ob =
     CHR ''{'' #
     commas (map (\<lambda>kv. quote (fst kv) @ CHR '':'' # stringify_value (snd kv))
               (filter (\<lambda>kv. snd kv \<noteq> JUndefined) ob)) @
     [CHR ''}'']"

subsection \<open>Readings\<close>

text \<open>
  What a request reads from outside: the store's clock at an \<^verbatim>\<open>INSERT\<close> and at an
  \<^verbatim>\<open>UPDATE\<close>, the JavaScript clock when the handler builds its payload and when the mock
  gateway builds an identifier, the random bytes and random block number of the mocks,
  and the identifier the store generates for a new verification request.
\<close>

record readings =
  insert_time :: instant
  update_time :: instant
  js_now :: instant
  mock_now :: instant
  random_bytes :: "byte list"
  random_block :: nat
  fresh_uuid :: string

section \<open>Deed Coordinator (\<^verbatim>\<open>routes/deeds.js\<close>)\<close>

subsection \<open>Queries on \<^verbatim>\<open>deeds\<close> and \<^verbatim>\<open>verification_logs\<close>\<close>

definition opt_json :: "('a \<Rightarrow> json) \<Rightarrow> 'a option \<Rightarrow> json" where
  "opt_json f v = (case v of None \<Rightarrow> JNull | Some x \<Rightarrow> f x)"

text \<open>A row of \<^verbatim>\<open>deeds\<close> as the driver returns it.\<close>

definition deed_json :: "deed_row \<Rightarrow> json" where
  "deed_json r = JObj
     [(''id'', JNum (int (deed_id r))),
      (''deed_number'', JStr (deed_number r)),
      (''title'', JStr (title r)),
      (''description'', opt_json JStr (description r)),
      (''owner_id'', JNum (owner_id r)),
      (''property_address'', JStr (property_address r)),
      (''survey_plan_number'', opt_json JStr (survey_plan_number r)),
      (''extent'', JStr (extent r)),
      (''boundaries'', opt_json JStr (boundaries r)),
      (''document_hash'', opt_json JStr (document_hash r)),
      (''ipfs_hash'', opt_json JStr (ipfs_hash r)),
      (''blockchain_transaction_id'', opt_json JStr (blockchain_transaction_id r)),
      (''verification_status'', JStr (verification_status r)),
      (''created_by'', JNum (created_by r)),
      (''verified_by'', opt_json JNum (verified_by r)),
      (''created_at'', JDate (created_at r)),
      (''updated_at'', JDate (updated_at r))]"

text \<open>\<^verbatim>\<open>SELECT id FROM deeds WHERE deed_number = $1\<close> and \<^verbatim>\<open>SELECT * FROM deeds WHERE id = $1\<close>.\<close>

definition select_deeds_by_number :: "database \<Rightarrow> string \<Rightarrow> deed_row list" where
  "select_deeds_by_number d n = filter (\<lambda>r. deed_number r = n) (deeds d)"

definition select_deeds_by_id :: "database \<Rightarrow> nat \<Rightarrow> deed_row list" where
  "select_deeds_by_id d i = filter (\<lambda>r. deed_id r = i) (deeds d)"

text \<open>
  The constraints of \<^verbatim>\<open>deeds\<close> a new row has to meet: the primary key, the unique deed
  number and the two foreign keys into \<^verbatim>\<open>users\<close>.
\<close>

definition deeds_constraints :: "database \<Rightarrow> deed_row \<Rightarrow> bool" where
  "deeds_constraints d r =
     (deed_id r \<notin> set (map deed_id (deeds d)) \<and>
      deed_number r \<notin> set (map deed_number (deeds d)) \<and>
      owner_id r \<in> set (users d) \<and>
      created_by r \<in> set (users d))"

text \<open>
  \<^verbatim>\<open>INSERT INTO deeds (...) VALUES ($1, ..., $11) RETURNING *\<close>. The texts have to fit
  their \<^verbatim>\<open>VARCHAR\<close> columns (100 characters for the deed number, the survey plan number
  and the extent, 255 for the title, the document hash and \<^verbatim>\<open>ipfs_hash\<close>), and the
  owner, which the request gives as a text, has to be in the range of its column. The
  identifier comes from the sequence, \<^verbatim>\<open>verification_status\<close> defaults to \<^verbatim>\<open>'pending'\<close>,
  both timestamps to the store's clock, the other columns to \<^verbatim>\<open>NULL\<close>. A row that
  violates a constraint is not inserted, but the value it took from the sequence is
  spent.
\<close>

definition insert_deed ::
  "instant \<Rightarrow> string \<Rightarrow> string \<Rightarrow> string option \<Rightarrow> int \<Rightarrow> string \<Rightarrow> string option \<Rightarrow> string
     \<Rightarrow> string option \<Rightarrow> string option \<Rightarrow> string option \<Rightarrow> int \<Rightarrow> database
     \<Rightarrow> (js_error + deed_row) \<times> database" where
  "insert_deed now p1 p2 p3 p4 p5 p6 p7 p8 p9 p10 p11 d =
     (if \<not> (fits 100 p1 \<and> fits 255 p2 \<and> int4 p4 \<and> fits_opt 100 p6 \<and> fits 100 p7 \<and>
             fits_opt 255 p9 \<and> fits_opt 255 p10)
      then (Inl (Error ''value too long''), d)
      else
        (let r = \<lparr>deed_id = deeds_id_seq d, deed_number = varchar 100 p1,
                   title = varchar 255 p2, description = p3, owner_id = p4,
                   property_address = p5, survey_plan_number = varchar_opt 100 p6,
                   extent = varchar 100 p7, boundaries = p8,
                   document_hash = varchar_opt 255 p9, ipfs_hash = varchar_opt 255 p10,
                   blockchain_transaction_id = None, verification_status = ''pending'',
                   created_by = p11, verified_by = None, created_at = now, updated_at = now\<rparr>;
             d1 = d\<lparr>deeds_id_seq := Suc (deeds_id_seq d)\<rparr>
         in if deeds_constraints d r
            then (Inr r, d1\<lparr>deeds := deeds d @ [r]\<rparr>)
            else (Inl (Error ''constraint violation''), d1)))"

text \<open>
  \<^verbatim>\<open>UPDATE deeds SET blockchain_transaction_id = $1 WHERE id = $2\<close>; the trigger of the
  schema stamps \<^verbatim>\<open>updated_at\<close> on every update of a row.
\<close>

definition update_transaction_id ::
  "instant \<Rightarrow> json \<Rightarrow> nat \<Rightarrow> database \<Rightarrow> js_error + database" where
  "update_transaction_id now txid i d =
     (if \<not> fits_opt 255 (opt_text txid) then Inl (Error ''value too long'')
      else Inr (d\<lparr>deeds :=
             map (\<lambda>r. if deed_id r = i
                       then r\<lparr>blockchain_transaction_id := varchar_opt 255 (opt_text txid),
                              updated_at := now\<rparr>
                       else r) (deeds d)\<rparr>))"

text \<open>
  \<^verbatim>\<open>UPDATE deeds SET verification_status = $1, verified_by = $2, updated_at =
  CURRENT_TIMESTAMP WHERE id = $3\<close>; \<^verbatim>\<open>verification_status\<close> is \<^verbatim>\<open>VARCHAR(50)\<close> and
  \<^verbatim>\<open>verified_by\<close> references \<^verbatim>\<open>users\<close>.
\<close>

definition update_verification ::
  "instant \<Rightarrow> string \<Rightarrow> int \<Rightarrow> nat \<Rightarrow> database \<Rightarrow> js_error + database" where
  "update_verification now result verifier i d =
     (if \<not> fits 50 result then Inl (Error ''value too long'')
      else if select_deeds_by_id d i \<noteq> [] \<and> verifier \<notin> set (users d)
      then Inl (Error ''constraint violation'')
      else Inr (d\<lparr>deeds :=
             map (\<lambda>r. if deed_id r = i
                       then r\<lparr>verification_status := varchar 50 result,
                              verified_by := Some verifier, updated_at := now\<rparr>
                       else r) (deeds d)\<rparr>))"

text \<open>
  \<^verbatim>\<open>INSERT INTO verification_logs (deed_id, verified_by, verification_type,
  verification_result, notes) VALUES ($1, ..., $5)\<close>: \<^verbatim>\<open>verification_type\<close> is
  \<^verbatim>\<open>VARCHAR(100)\<close>, \<^verbatim>\<open>verification_result\<close> is \<^verbatim>\<open>VARCHAR(50)\<close>, \<^verbatim>\<open>deed_id\<close> references
  \<^verbatim>\<open>deeds\<close> and \<^verbatim>\<open>verified_by\<close> references \<^verbatim>\<open>users\<close>. The result is the error, if any.
\<close>

definition insert_log ::
  "instant \<Rightarrow> int \<Rightarrow> int \<Rightarrow> string \<Rightarrow> string option \<Rightarrow> string option \<Rightarrow> database
     \<Rightarrow> js_error option \<times> database" where
  "insert_log now p1 p2 p3 p4 p5 d =
     (if \<not> (fits 100 p3 \<and> fits_opt 50 p4) then (Some (Error ''value too long''), d)
      else
        (let r = \<lparr>log_id = logs_id_seq d, log_deed_id = p1, log_verified_by = p2,
                   verification_type = varchar 100 p3,
                   verification_result = varchar_opt 50 p4, log_notes = p5,
                   log_created_at = now\<rparr>;
             d1 = d\<lparr>logs_id_seq := Suc (logs_id_seq d)\<rparr>
         in if log_id r \<notin> set (map log_id (verification_logs d)) \<and>
               p1 \<in> set (map (\<lambda>x. int (deed_id x)) (deeds d)) \<and> p2 \<in> set (users d)
            then (None, d1\<lparr>verification_logs := verification_logs d @ [r]\<rparr>)
            else (Some (Error ''constraint violation''), d1)))"

subsection \<open>\<^verbatim>\<open>POST /create\<close>\<close>

definition validate_create :: "obj \<Rightarrow> string list" where
  "validate_create body =
     (if notEmpty (member body ''deed_number'') then [] else [''Deed number is required'']) @
     (if notEmpty (member body ''title'') then [] else [''Title is required'']) @
     (if isInt (member body ''owner_id'') then [] else [''Valid owner ID is required'']) @
     (if notEmpty (member body ''property_address'') then []
      else [''Property address is required'']) @
     (if notEmpty (member body ''extent'') then [] else [''Property extent is required''])"

definition created_response :: "deed_row \<Rightarrow> response" where
  "created_response deed =
     Response 201 [(''message'', JStr ''Deed created successfully''), (''deed'', deed_json deed)]"

text \<open>The document hash and the \<^verbatim>\<open>ipfs_hash\<close> parameter the handler computes for a file.\<close>

definition document_hash_of :: "(string \<times> byte list) option \<Rightarrow> string option" where
  "document_hash_of file =
     (case file of None \<Rightarrow> None | Some (path, fileBuffer) \<Rightarrow> Some (hex (sha256 fileBuffer)))"

definition ipfs_hash_of ::
  "IPFSService \<Rightarrow> readings \<Rightarrow> (string \<times> byte list) option \<Rightarrow> string option" where
  "ipfs_hash_of ip rd file =
     (case file of
        None \<Rightarrow> None
      | Some (path, fileBuffer) \<Rightarrow>
          (case uploadFile ip (random_bytes rd) path fileBuffer of
             Inl ipfsError \<Rightarrow> None
           | Inr r \<Rightarrow> Some (stringify_flat r)))"

text \<open>The payload the handler gives to the Ledger Gateway.\<close>

definition deedData_of :: "readings \<Rightarrow> int \<Rightarrow> obj \<Rightarrow> string option \<Rightarrow> obj" where
  "deedData_of rd user body documentHash =
     [(''deedNumber'', member body ''deed_number''),
      (''ownerId'', member body ''owner_id''),
      (''propertyAddress'', member body ''property_address''),
      (''documentHash'', opt_json JStr documentHash),
      (''createdBy'', JNum user),
      (''timestamp'', JDate (js_now rd))]"

text \<open>
  The handler of \<^verbatim>\<open>POST /create\<close>, after the role and upload middleware, run without
  another handler in between: \<open>user\<close> is \<^verbatim>\<open>req.user.id\<close>, \<open>file\<close> the uploaded document
  (\<^verbatim>\<open>req.file\<close>: its path and bytes) if there is one; the document hash is
  \<^verbatim>\<open>crypto.createHash('sha256').update(fileBuffer).digest('hex')\<close>. The two inner
  \<^verbatim>\<open>try\<close> blocks log a throw of the Document Store and of the Ledger Gateway (which
  includes the update that records the transaction identifier) and go on; any other
  throw ends in the outer \<^verbatim>\<open>catch\<close> with status 500.
\<close>

definition create_route ::
  "BlockchainService \<Rightarrow> IPFSService \<Rightarrow> readings \<Rightarrow> int \<Rightarrow> obj
     \<Rightarrow> (string \<times> byte list) option \<Rightarrow> system \<Rightarrow> response \<times> system" where
  "create_route bc ip rd user body file sys =
     (let errors = validate_create body in
      if errors \<noteq> [] then (Response 400 [(''errors'', JArr (map validation_error errors))], sys)
      else if select_deeds_by_number (db sys) (str_of (member body ''deed_number'')) \<noteq> []
      then (Response 409 [(''error'', JStr ''Deed with this number already exists'')], sys)
      else
        (let document_hash = document_hash_of file;
             ipfs_hash = ipfs_hash_of ip rd file
         in case insert_deed (insert_time rd)
                   (str_of (member body ''deed_number'')) (str_of (member body ''title''))
                   (opt_text (member body ''description'')) (int_of_text (member body ''owner_id''))
                   (str_of (member body ''property_address''))
                   (opt_text (member body ''survey_plan_number''))
                   (str_of (member body ''extent'')) (opt_text (member body ''boundaries''))
                   document_hash ipfs_hash user (db sys) of
              (Inl error, db1) \<Rightarrow>
                (Response 500 [(''error'', JStr ''Failed to create deed'')], sys\<lparr>db := db1\<rparr>)
            | (Inr deed, db1) \<Rightarrow>
                (case createDeed bc (mock_now rd) (random_block rd)
                        (deedData_of rd user body document_hash) (ledger sys) of
                   (Inl blockchainError, w) \<Rightarrow>
                     (created_response deed, \<lparr>db = db1, ledger = w\<rparr>)
                 | (Inr blockchainResult, w) \<Rightarrow>
                     (case update_transaction_id (update_time rd)
                             (member blockchainResult ''transactionId'') (deed_id deed) db1 of
                        Inl blockchainError \<Rightarrow>
                          (created_response deed, \<lparr>db = db1, ledger = w\<rparr>)
                      | Inr db2 \<Rightarrow>
                          (created_response
                             (deed\<lparr>blockchain_transaction_id :=
                                     opt_text (member blockchainResult ''transactionId'')\<rparr>),
                           \<lparr>db = db2, ledger = w\<rparr>)))))"

text \<open>
  What the store asks of a create request besides an unused deed number: the next value
  of the sequence is unused, the texts are no longer than their columns, the owner is
  in the range of an \<^verbatim>\<open>INTEGER\<close>, and the owner and the caller are users. \<open>ih\<close> is the \<^verbatim>\<open>ipfs_hash\<close> parameter.
\<close>

definition create_constraints :: "database \<Rightarrow> int \<Rightarrow> obj \<Rightarrow> string option \<Rightarrow> bool" where
  "create_constraints d uid body ih =
     (deeds_id_seq d \<notin> set (map deed_id (deeds d)) \<and>
      length (str_of (member body ''deed_number'')) \<le> 100 \<and>
      length (str_of (member body ''title'')) \<le> 255 \<and>
      int4 (int_of_text (member body ''owner_id'')) \<and>
      int_of_text (member body ''owner_id'') \<in> set (users d) \<and>
      uid \<in> set (users d) \<and>
      length (case opt_text (member body ''survey_plan_number'') of None \<Rightarrow> [] | Some n \<Rightarrow> n)
        \<le> 100 \<and>
      length (str_of (member body ''extent'')) \<le> 100 \<and>
      length (case ih of None \<Rightarrow> [] | Some t \<Rightarrow> t) \<le> 255)"

subsection \<open>\<^verbatim>\<open>POST /:id/verify\<close>\<close>

definition validate_verify :: "obj \<Rightarrow> string list" where
  "validate_verify body =
     (if isIn [''verified'', ''rejected''] (member body ''verification_result'') then []
      else [''Invalid verification result'']) @
     (case member body ''notes'' of
        JUndefined \<Rightarrow> []
      | JStr s \<Rightarrow> []
      | _ \<Rightarrow> [''Notes must be a string''])"

text \<open>The payload a handler gives to the Ledger Gateway's \<^verbatim>\<open>verifyDeed\<close>.\<close>

definition verificationData_of :: "readings \<Rightarrow> int \<Rightarrow> json \<Rightarrow> json \<Rightarrow> obj" where
  "verificationData_of rd user result notes =
     [(''verifierId'', JNum user),
      (''verificationResult'', result),
      (''notes'', notes),
      (''timestamp'', JDate (js_now rd))]"

definition verified_response :: "obj \<Rightarrow> response" where
  "verified_response body =
     Response 200 [(''message'', JStr ''Deed verification completed successfully''),
                   (''verification_result'', member body ''verification_result'')]"

definition verify_failed :: response where
  "verify_failed = Response 500 [(''error'', JStr ''Failed to verify deed'')]"

text \<open>
  The handler of \<^verbatim>\<open>POST /:id/verify\<close>, after the role middleware, run without another
  handler in between; \<open>i\<close> is the identifier in the path, a number. A throw of the
  Ledger Gateway is logged and the handler goes on.
\<close>

definition verify_route ::
  "BlockchainService \<Rightarrow> readings \<Rightarrow> int \<Rightarrow> nat \<Rightarrow> obj \<Rightarrow> system \<Rightarrow> response \<times> system" where
  "verify_route bc rd user i body sys =
     (let errors = validate_verify body in
      if errors \<noteq> [] then (Response 400 [(''errors'', JArr (map validation_error errors))], sys)
      else
        (case select_deeds_by_id (db sys) i of
           [] \<Rightarrow> (Response 404 [(''error'', JStr ''Deed not found'')], sys)
         | deed # rest \<Rightarrow>
             (case update_verification (update_time rd)
                     (str_of (member body ''verification_result'')) user i (db sys) of
                Inl error \<Rightarrow> (verify_failed, sys)
              | Inr db1 \<Rightarrow>
                  (case insert_log (insert_time rd) (int i) user ''manual_verification''
                          (opt_text (member body ''verification_result''))
                          (opt_text (member body ''notes'')) db1 of
                     (Some error, db2) \<Rightarrow> (verify_failed, sys\<lparr>db := db2\<rparr>)
                   | (None, db2) \<Rightarrow>
                       (case verifyDeed bc (mock_now rd) (deed_number deed)
                               (verificationData_of rd user (member body ''verification_result'')
                                  (member body ''notes'')) (ledger sys) of
                          (r, w) \<Rightarrow> (verified_response body, \<lparr>db = db2, ledger = w\<rparr>))))))"

section \<open>Ledger routes (\<^verbatim>\<open>routes/blockchain.js\<close>)\<close>

text \<open>
  The handler of \<^verbatim>\<open>POST /verify/:deedNumber\<close>, after the role middleware, run without
  another handler in between. It asks the Ledger Gateway first and then writes a
  verification log whose \<^verbatim>\<open>deed_id\<close> parameter is the deed number of the path: a text
  that is not an integer in the range of the column makes the insert fail, as does an
  integer that is no deed's identifier. Any throw ends with status 500 and the error's message; what the gateway
  did to the ledger before stays.
\<close>

definition message_of :: "js_error \<Rightarrow> string" where
  "message_of e = (case e of Error m \<Rightarrow> m)"

definition blockchain_verify_failed :: "js_error \<Rightarrow> response" where
  "blockchain_verify_failed e =
     Response 500 [(''error'', JStr ''Failed to verify deed on blockchain''),
                   (''message'', JStr (message_of e))]"

text \<open>The insert of the route, with the deed number as it stands in the path.\<close>

definition insert_blockchain_log ::
  "readings \<Rightarrow> int \<Rightarrow> string \<Rightarrow> obj \<Rightarrow> database \<Rightarrow> js_error option \<times> database" where
  "insert_blockchain_log rd user deedNumber body d =
     (if \<not> isInt (JStr deedNumber) then (Some (Error ''invalid input syntax for type integer''), d)
      else if \<not> int4 (int_of_text (JStr deedNumber))
      then (Some (Error ''value out of range for type integer''), d)
      else insert_log (insert_time rd) (int_of_text (JStr deedNumber)) user
             ''blockchain_verification'' (opt_text (member body ''verificationResult''))
             (opt_text (member body ''notes'')) d)"

definition blockchain_verify_route ::
  "BlockchainService \<Rightarrow> readings \<Rightarrow> int \<Rightarrow> string \<Rightarrow> obj \<Rightarrow> system \<Rightarrow> response \<times> system" where
  "blockchain_verify_route bc rd user deedNumber body sys =
     (case verifyDeed bc (mock_now rd) deedNumber
             (verificationData_of rd user (member body ''verificationResult'')
                (member body ''notes'')) (ledger sys) of
        (Inl error, w) \<Rightarrow> (blockchain_verify_failed error, sys\<lparr>ledger := w\<rparr>)
      | (Inr result, w) \<Rightarrow>
          (case insert_blockchain_log rd user deedNumber body (db sys) of
             (Some error, db1) \<Rightarrow> (blockchain_verify_failed error, \<lparr>db = db1, ledger = w\<rparr>)
           | (None, db1) \<Rightarrow> (Response 200 result, \<lparr>db = db1, ledger = w\<rparr>)))"

section \<open>Verification Workflow (\<^verbatim>\<open>routes/verification.js\<close>)\<close>

text \<open>
  \<^verbatim>\<open>req.user\<close>, as the token middleware sets it: the identifier and the role. The handlers
  below are what runs after the token and role middleware, without another handler in
  between.
\<close>

record user =
  user_id :: string
  role :: string

definition optional_isLength_max :: "nat \<Rightarrow> json \<Rightarrow> bool" where
  "optional_isLength_max n v = (case v of JUndefined \<Rightarrow> True | _ \<Rightarrow> length (str_of v) \<le> n)"

text \<open>\<^verbatim>\<open>x || null\<close> as a query parameter: an absent or empty text is \<^verbatim>\<open>NULL\<close>.\<close>

definition or_null :: "json \<Rightarrow> string option" where
  "or_null v = (if str_of v = [] then None else Some (str_of v))"

definition validation_failed :: "string list \<Rightarrow> response" where
  "validation_failed errors =
     Response 400 [(''error'', JStr ''Validation Error''),
                   (''message'', JStr ''Please check your input''),
                   (''details'', JArr (map validation_error errors))]"

subsection \<open>\<^verbatim>\<open>POST /request\<close>\<close>

definition validateVerificationRequest :: "obj \<Rightarrow> string list" where
  "validateVerificationRequest body =
     (if isUUID (member body ''deedId'') then [] else [''Valid deed ID is required'']) @
     (if isIn [''ownership'', ''authenticity'', ''history''] (member body ''requestType'') then []
      else [''Request type must be ownership, authenticity, or history'']) @
     (if optional_isLength_max 1000 (member body ''requestDetails'') then []
      else [''Request details must be less than 1000 characters''])"

text \<open>\<^verbatim>\<open>SELECT ... FROM land_deeds WHERE id = $1\<close>.\<close>

definition select_land_deed :: "database \<Rightarrow> string \<Rightarrow> land_deed_row list" where
  "select_land_deed d deedId = filter (\<lambda>ld. ld_id ld = deedId) (land_deeds d)"

text \<open>
  \<^verbatim>\<open>SELECT id FROM verification_requests WHERE deed_id = $1 AND request_type = $2 AND
  status = 'pending'\<close>.
\<close>

definition pending_requests :: "database \<Rightarrow> string \<Rightarrow> string \<Rightarrow> request_row list" where
  "pending_requests d deedId requestType =
     filter (\<lambda>r. request_deed_id r = deedId \<and> request_type r = requestType \<and>
                  request_status r = ''pending'') (verification_requests d)"

text \<open>
  \<^verbatim>\<open>INSERT INTO verification_requests (deed_id, requester_id, request_type,
  request_details, status) VALUES ($1, ..., $5) RETURNING ...\<close>: the store generates the
  identifier, which is the primary key, and stamps \<^verbatim>\<open>created_at\<close>.
\<close>

definition insert_request ::
  "readings \<Rightarrow> string \<Rightarrow> string \<Rightarrow> string \<Rightarrow> string option \<Rightarrow> string \<Rightarrow> database
     \<Rightarrow> js_error + request_row \<times> database" where
  "insert_request rd p1 p2 p3 p4 p5 d =
     (let r = \<lparr>request_id = fresh_uuid rd, request_deed_id = p1, requester_id = p2,
                request_type = p3, request_details = p4, request_status = p5,
                response_details = None, processed_at = None, processed_by = None,
                request_created_at = insert_time rd\<rparr>
      in if request_id r \<in> set (map request_id (verification_requests d))
         then Inl (Error ''duplicate key'')
         else Inr (r, d\<lparr>verification_requests := verification_requests d @ [r]\<rparr>))"

definition deed_not_found :: response where
  "deed_not_found =
     Response 404 [(''error'', JStr ''Not Found''), (''message'', JStr ''Deed not found'')]"

definition request_forbidden :: response where
  "request_forbidden =
     Response 403
       [(''error'', JStr ''Forbidden''),
        (''message'', JStr
           ''You do not have permission to request verification for this deed'')]"

text \<open>The response of the request route the specification calls \<open>Conflict\<close>.\<close>

definition conflict_response :: response where
  "conflict_response =
     Response 409
       [(''error'', JStr ''Conflict''),
        (''message'', JStr
           ''A pending verification request already exists for this deed and type'')]"

definition request_failed :: response where
  "request_failed =
     Response 500
       [(''error'', JStr ''Internal Server Error''),
        (''message'', JStr ''Failed to create verification request'')]"

definition request_created :: "request_row \<Rightarrow> response" where
  "request_created newRequest =
     Response 201
       [(''message'', JStr ''Verification request created successfully''),
        (''request'', JObj
           [(''id'', JStr (request_id newRequest)),
            (''deedId'', JStr (request_deed_id newRequest)),
            (''requestType'', JStr (request_type newRequest)),
            (''status'', JStr (request_status newRequest)),
            (''createdAt'', JDate (request_created_at newRequest))])]"

definition create_request_route ::
  "readings \<Rightarrow> user \<Rightarrow> obj \<Rightarrow> database \<Rightarrow> response \<times> database" where
  "create_request_route rd u body d =
     (let errors = validateVerificationRequest body in
      if errors \<noteq> [] then (validation_failed errors, d)
      else
        (let deedId = str_of (member body ''deedId'');
             requestType = str_of (member body ''requestType'')
         in case select_land_deed d deedId of
              [] \<Rightarrow> (deed_not_found, d)
            | deed # rest \<Rightarrow>
                if ld_owner_id deed \<noteq> user_id u \<and> role u = ''citizen''
                then (request_forbidden, d)
                else if pending_requests d deedId requestType \<noteq> []
                then (conflict_response, d)
                else
                  (case insert_request rd deedId (user_id u) requestType
                          (or_null (member body ''requestDetails'')) ''pending'' d of
                     Inl error \<Rightarrow> (request_failed, d)
                   | Inr (newRequest, d') \<Rightarrow> (request_created newRequest, d'))))"

subsection \<open>\<^verbatim>\<open>PUT /requests/:id/process\<close>\<close>

definition validate_process :: "obj \<Rightarrow> string list" where
  "validate_process body =
     (if isIn [''approved'', ''rejected''] (member body ''status'') then []
      else [''Status must be either approved or rejected'']) @
     (if optional_isLength_max 1000 (member body ''responseDetails'') then []
      else [''Response details must be less than 1000 characters''])"

text \<open>
  \<^verbatim>\<open>SELECT ... FROM verification_requests vr JOIN land_deeds ld ON vr.deed_id = ld.id
  WHERE vr.id = $1\<close>: the requests with that identifier whose deed exists.
\<close>

definition select_request :: "database \<Rightarrow> string \<Rightarrow> request_row list" where
  "select_request d i =
     filter (\<lambda>r. request_id r = i \<and> request_deed_id r \<in> set (map ld_id (land_deeds d)))
       (verification_requests d)"

text \<open>
  \<^verbatim>\<open>UPDATE verification_requests SET status = $1, response_details = $2, processed_at =
  CURRENT_TIMESTAMP, processed_by = $3 WHERE id = $4\<close>. The statement has no condition on
  the status the row has.
\<close>

definition update_request ::
  "instant \<Rightarrow> string \<Rightarrow> string option \<Rightarrow> string \<Rightarrow> string \<Rightarrow> database \<Rightarrow> database" where
  "update_request now p1 p2 p3 p4 d =
     d\<lparr>verification_requests :=
         map (\<lambda>r. if request_id r = p4
                   then r\<lparr>request_status := p1, response_details := p2,
                          processed_at := Some now, processed_by := Some p3\<rparr>
                   else r) (verification_requests d)\<rparr>"

definition request_not_found :: response where
  "request_not_found =
     Response 404 [(''error'', JStr ''Not Found''),
                   (''message'', JStr ''Verification request not found'')]"

text \<open>The response of the process route the specification calls \<open>AlreadyProcessed\<close>.\<close>

definition already_processed :: response where
  "already_processed =
     Response 400 [(''error'', JStr ''Bad Request''),
                   (''message'', JStr ''Request has already been processed'')]"

definition process_failed :: response where
  "process_failed =
     Response 500
       [(''error'', JStr ''Internal Server Error''),
        (''message'', JStr ''Failed to process verification request'')]"

definition request_processed :: "readings \<Rightarrow> string \<Rightarrow> obj \<Rightarrow> response" where
  "request_processed rd i body =
     Response 200
       [(''message'', JStr ''Verification request processed successfully''),
        (''request'', JObj
           [(''id'', JStr i),
            (''status'', member body ''status''),
            (''responseDetails'', opt_json JStr (or_null (member body ''responseDetails''))),
            (''processedAt'', JDate (update_time rd))])]"

definition process_request_route ::
  "readings \<Rightarrow> user \<Rightarrow> string \<Rightarrow> obj \<Rightarrow> database \<Rightarrow> response \<times> database" where
  "process_request_route rd u i body d =
     (let errors = validate_process body in
      if errors \<noteq> [] then (validation_failed errors, d)
      else
        (case select_request d i of
           [] \<Rightarrow> (request_not_found, d)
         | request # rest \<Rightarrow>
             if request_status request \<noteq> ''pending'' then (already_processed, d)
             else
               (request_processed rd i body,
                update_request (update_time rd) (str_of (member body ''status''))
                  (or_null (member body ''responseDetails'')) (user_id u) i d)))"

subsection \<open>Invariants of the tables\<close>

text \<open>
  The invariant of \<^verbatim>\<open>verification_requests\<close> the specification asks for: no two pending
  requests share a deed and a request kind.
\<close>

definition at_most_one_pending :: "database \<Rightarrow> bool" where
  "at_most_one_pending d =
     distinct (map (\<lambda>r. (request_deed_id r, request_type r))
                (filter (\<lambda>r. request_status r = ''pending'') (verification_requests d)))"

text \<open>
  The invariant of the two sequences: every identifier in use is below the next value of
  its sequence.
\<close>

definition sequences_fresh :: "database \<Rightarrow> bool" where
  "sequences_fresh d =
     (list_all (\<lambda>r. deed_id r < deeds_id_seq d) (deeds d) \<and>
      list_all (\<lambda>l. log_id l < logs_id_seq d) (verification_logs d))"

section \<open>Requests in flight\<close>

text \<open>
  The handler of a route is an \<^verbatim>\<open>async\<close> function: it gives up control at every
  \<^verbatim>\<open>await\<close>, and each query runs on its own client of the pool, outside any
  transaction. A value of the type below is a request in flight: its handler standing
  before one of its awaited calls with the values it has computed so far, or done with
  its response. The call of the Document Store touches neither the
  relational store nor the ledger and is part of the step that follows it.
\<close>

datatype handler =
    Create_select readings int obj "(string \<times> byte list) option"
  | Create_insert readings int obj "(string \<times> byte list) option"
  | Create_ledger readings int obj "string option" deed_row
  | Create_update readings deed_row obj
  | Verify_select readings int nat obj
  | Verify_update readings int nat obj deed_row
  | Verify_log readings int nat obj deed_row
  | Verify_ledger readings int obj deed_row
  | Request_deed readings user obj
  | Request_pending readings user obj
  | Request_insert readings user obj
  | Process_select readings user string obj
  | Process_update readings user string obj
  | BVerify_ledger readings int string obj
  | BVerify_log readings int string obj obj
  | Done response

text \<open>
  One awaited call of a request in flight, with the synchronous code up to its next
  \<^verbatim>\<open>await\<close> or to its response.
\<close>

fun step :: "BlockchainService \<Rightarrow> IPFSService \<Rightarrow> handler \<Rightarrow> system \<Rightarrow> handler \<times> system" where
  "step bc ip (Create_select rd user body fl) sys =
     (let errors = validate_create body in
      if errors \<noteq> []
      then (Done (Response 400 [(''errors'', JArr (map validation_error errors))]), sys)
      else if select_deeds_by_number (db sys) (str_of (member body ''deed_number'')) \<noteq> []
      then (Done (Response 409 [(''error'', JStr ''Deed with this number already exists'')]), sys)
      else (Create_insert rd user body fl, sys))"
| "step bc ip (Create_insert rd user body fl) sys =
     (case insert_deed (insert_time rd)
             (str_of (member body ''deed_number'')) (str_of (member body ''title''))
             (opt_text (member body ''description'')) (int_of_text (member body ''owner_id''))
             (str_of (member body ''property_address''))
             (opt_text (member body ''survey_plan_number''))
             (str_of (member body ''extent'')) (opt_text (member body ''boundaries''))
             (document_hash_of fl) (ipfs_hash_of ip rd fl) user (db sys) of
        (Inl error, db1) \<Rightarrow>
          (Done (Response 500 [(''error'', JStr ''Failed to create deed'')]), sys\<lparr>db := db1\<rparr>)
      | (Inr deed, db1) \<Rightarrow>
          (Create_ledger rd user body (document_hash_of fl) deed, sys\<lparr>db := db1\<rparr>))"
| "step bc ip (Create_ledger rd user body documentHash deed) sys =
     (case createDeed bc (mock_now rd) (random_block rd)
             (deedData_of rd user body documentHash) (ledger sys) of
        (Inl blockchainError, w) \<Rightarrow> (Done (created_response deed), sys\<lparr>ledger := w\<rparr>)
      | (Inr blockchainResult, w) \<Rightarrow> (Create_update rd deed blockchainResult, sys\<lparr>ledger := w\<rparr>))"
| "step bc ip (Create_update rd deed blockchainResult) sys =
     (case update_transaction_id (update_time rd)
             (member blockchainResult ''transactionId'') (deed_id deed) (db sys) of
        Inl blockchainError \<Rightarrow> (Done (created_response deed), sys)
      | Inr db2 \<Rightarrow>
          (Done (created_response
                   (deed\<lparr>blockchain_transaction_id :=
                           opt_text (member blockchainResult ''transactionId'')\<rparr>)),
           sys\<lparr>db := db2\<rparr>))"
| "step bc ip (Verify_select rd user i body) sys =
     (let errors = validate_verify body in
      if errors \<noteq> []
      then (Done (Response 400 [(''errors'', JArr (map validation_error errors))]), sys)
      else
        (case select_deeds_by_id (db sys) i of
           [] \<Rightarrow> (Done (Response 404 [(''error'', JStr ''Deed not found'')]), sys)
         | deed # rest \<Rightarrow> (Verify_update rd user i body deed, sys)))"
| "step bc ip (Verify_update rd user i body deed) sys =
     (case update_verification (update_time rd)
             (str_of (member body ''verification_result'')) user i (db sys) of
        Inl error \<Rightarrow> (Done verify_failed, sys)
      | Inr db1 \<Rightarrow> (Verify_log rd user i body deed, sys\<lparr>db := db1\<rparr>))"
| "step bc ip (Verify_log rd user i body deed) sys =
     (case insert_log (insert_time rd) (int i) user ''manual_verification''
             (opt_text (member body ''verification_result''))
             (opt_text (member body ''notes'')) (db sys) of
        (Some error, db2) \<Rightarrow> (Done verify_failed, sys\<lparr>db := db2\<rparr>)
      | (None, db2) \<Rightarrow> (Verify_ledger rd user body deed, sys\<lparr>db := db2\<rparr>))"
| "step bc ip (Verify_ledger rd user body deed) sys =
     (case verifyDeed bc (mock_now rd) (deed_number deed)
             (verificationData_of rd user (member body ''verification_result'')
                (member body ''notes'')) (ledger sys) of
        (r, w) \<Rightarrow> (Done (verified_response body), sys\<lparr>ledger := w\<rparr>))"
| "step bc ip (Request_deed rd u body) sys =
     (let errors = validateVerificationRequest body in
      if errors \<noteq> [] then (Done (validation_failed errors), sys)
      else
        (case select_land_deed (db sys) (str_of (member body ''deedId'')) of
           [] \<Rightarrow> (Done deed_not_found, sys)
         | deed # rest \<Rightarrow>
             if ld_owner_id deed \<noteq> user_id u \<and> role u = ''citizen''
             then (Done request_forbidden, sys)
             else (Request_pending rd u body, sys)))"
| "step bc ip (Request_pending rd u body) sys =
     (if pending_requests (db sys) (str_of (member body ''deedId''))
           (str_of (member body ''requestType'')) \<noteq> []
      then (Done conflict_response, sys)
      else (Request_insert rd u body, sys))"
| "step bc ip (Request_insert rd u body) sys =
     (case insert_request rd (str_of (member body ''deedId'')) (user_id u)
             (str_of (member body ''requestType''))
             (or_null (member body ''requestDetails'')) ''pending'' (db sys) of
        Inl error \<Rightarrow> (Done request_failed, sys)
      | Inr (newRequest, d') \<Rightarrow> (Done (request_created newRequest), sys\<lparr>db := d'\<rparr>))"
| "step bc ip (Process_select rd u i body) sys =
     (let errors = validate_process body in
      if errors \<noteq> [] then (Done (validation_failed errors), sys)
      else
        (case select_request (db sys) i of
           [] \<Rightarrow> (Done request_not_found, sys)
         | request # rest \<Rightarrow>
             if request_status request \<noteq> ''pending'' then (Done already_processed, sys)
             else (Process_update rd u i body, sys)))"
| "step bc ip (Process_update rd u i body) sys =
     (case filter (\<lambda>r. request_id r = i) (verification_requests (db sys)) of
        [] \<Rightarrow> (Done process_failed, sys)
      | updatedRequest # rest \<Rightarrow>
          (Done (request_processed rd i body),
           sys\<lparr>db := update_request (update_time rd) (str_of (member body ''status''))
                        (or_null (member body ''responseDetails'')) (user_id u) i (db sys)\<rparr>))"
| "step bc ip (BVerify_ledger rd user deedNumber body) sys =
     (case verifyDeed bc (mock_now rd) deedNumber
             (verificationData_of rd user (member body ''verificationResult'')
                (member body ''notes'')) (ledger sys) of
        (Inl error, w) \<Rightarrow> (Done (blockchain_verify_failed error), sys\<lparr>ledger := w\<rparr>)
      | (Inr result, w) \<Rightarrow> (BVerify_log rd user deedNumber body result, sys\<lparr>ledger := w\<rparr>))"
| "step bc ip (BVerify_log rd user deedNumber body result) sys =
     (case insert_blockchain_log rd user deedNumber body (db sys) of
        (Some error, db1) \<Rightarrow> (Done (blockchain_verify_failed error), sys\<lparr>db := db1\<rparr>)
      | (None, db1) \<Rightarrow> (Done (Response 200 result), sys\<lparr>db := db1\<rparr>))"
| "step bc ip (Done r) sys = (Done r, sys)"

text \<open>A request arrives standing before the first awaited call of its handler.\<close>

fun arriving :: "handler \<Rightarrow> bool" where
  "arriving (Create_select rd user body fl) = True"
| "arriving (Verify_select rd user i body) = True"
| "arriving (Request_deed rd u body) = True"
| "arriving (Process_select rd u i body) = True"
| "arriving (BVerify_ledger rd user deedNumber body) = True"
| "arriving t = False"

text \<open>A request run for a number of steps with no step of another request in between.\<close>

fun run :: "BlockchainService \<Rightarrow> IPFSService \<Rightarrow> nat \<Rightarrow> handler \<Rightarrow> system \<Rightarrow> handler \<times> system" where
  "run bc ip 0 t sys = (t, sys)"
| "run bc ip (Suc n) t sys = (case step bc ip t sys of (t', sys') \<Rightarrow> run bc ip n t' sys')"

text \<open>
  A schedule names, step by step, the request in flight that makes the next step; a
  position that names no request is passed over.
\<close>

fun schedule ::
  "BlockchainService \<Rightarrow> IPFSService \<Rightarrow> nat list \<Rightarrow> handler list \<times> system \<Rightarrow> handler list \<times> system" where
  "schedule bc ip [] st = st"
| "schedule bc ip (k # ks) (ts, sys) =
     (if k < length ts
      then (case step bc ip (ts ! k) sys of (t', sys') \<Rightarrow> schedule bc ip ks (ts[k := t'], sys'))
      else schedule bc ip ks (ts, sys))"

subsection \<open>What a step may do to the tables\<close>

text \<open>
  A step leaves the users and the land deeds alone and never lowers a sequence. It
  either keeps the numbers and identifiers of the deed rows or appends one row with the
  next identifier and an unused number; it either keeps the logs or appends one with the
  next identifier.
\<close>

definition deeds_step :: "database \<Rightarrow> database \<Rightarrow> bool" where
  "deeds_step d d' =
     ((map deed_number (deeds d') = map deed_number (deeds d) \<and>
       map deed_id (deeds d') = map deed_id (deeds d) \<and>
       deeds_id_seq d \<le> deeds_id_seq d') \<or>
      (\<exists>r. deeds d' = deeds d @ [r] \<and> deed_id r = deeds_id_seq d \<and>
           deeds_id_seq d' = Suc (deeds_id_seq d) \<and>
           deed_number r \<notin> set (map deed_number (deeds d))))"

definition logs_step :: "database \<Rightarrow> database \<Rightarrow> bool" where
  "logs_step d d' =
     ((verification_logs d' = verification_logs d \<and> logs_id_seq d \<le> logs_id_seq d') \<or>
      (\<exists>l. verification_logs d' = verification_logs d @ [l] \<and> log_id l = logs_id_seq d \<and>
           logs_id_seq d' = Suc (logs_id_seq d)))"

definition tables_step :: "database \<Rightarrow> database \<Rightarrow> bool" where
  "tables_step d d' =
     (users d' = users d \<and> land_deeds d' = land_deeds d \<and> deeds_step d d' \<and> logs_step d d')"

section \<open>Reachable states\<close>

text \<open>
  The system starts with no deed rows, no logs, no verification requests and no request
  in flight. A request to one of the five modelled routes may arrive at any time, and
  any request in flight may make its next step, whatever the other requests are doing
  and whatever mode the Ledger Gateway and the Document Store are in at that step.
  Every state a run of the server passes through, with the requests interleaved at
  their awaited calls in any order, is reachable.
\<close>

inductive reachable :: "handler list \<Rightarrow> system \<Rightarrow> bool" where
  initial: "deeds (db s) = [] \<Longrightarrow> verification_logs (db s) = [] \<Longrightarrow>
            verification_requests (db s) = [] \<Longrightarrow> reachable [] s"
| arrive: "reachable ts s \<Longrightarrow> arriving t \<Longrightarrow> reachable (ts @ [t]) s"
| query: "reachable ts s \<Longrightarrow> k < length ts \<Longrightarrow> step bc ip (ts ! k) s = (t', s') \<Longrightarrow>
          reachable (ts[k := t']) s'"

section \<open>Example values\<close>

text \<open>Concrete records on which the theorems below are instantiated.\<close>

definition example_deed :: Deed where
  "example_deed = \<lparr>ID = ''deed-1'', DeedNumber = ''LD-2024-001'', OwnerID = ''alice'',
     PropertyAddress = ''12 Galle Road'', PropertyType = ''residential'', LandArea = 10,
     LandAreaUnit = ''perch'', IPFSHash = ''Qm01'', Status = ''pending'',
     VerificationStatus = ''pending'', CreatedAt = 1000000000, UpdatedAt = 1000000000,
     VerifiedAt = None, VerifiedBy = []\<rparr>"

definition example_transfer :: "string \<Rightarrow> Transfer" where
  "example_transfer from = \<lparr>TransferID = [], DeedID = ''deed-1'', FromOwnerID = from,
     ToOwnerID = ''bob'', TransferReason = ''sale'', TransferDate = 4000000000,
     TransferCreatedAt = 0\<rparr>"

definition example_readings :: readings where
  "example_readings = \<lparr>insert_time = 1700000000000, update_time = 1700000000005,
     js_now = 1700000000002, mock_now = 1700000000003,
     random_bytes = replicate 32 0xAB, random_block = 417,
     fresh_uuid = ''123e4567-e89b-12d3-a456-426614174000''\<rparr>"

definition example_body :: obj where
  "example_body = [(''deed_number'', JStr ''LD-2024-001''), (''title'', JStr ''Lot 7''),
     (''owner_id'', JStr ''2''), (''property_address'', JStr ''12 Galle Road''),
     (''extent'', JStr ''10 perches'')]"

definition example_database :: database where
  "example_database = \<lparr>users = [1, 2], deeds = [], deeds_id_seq = 1, verification_logs = [],
     logs_id_seq = 1, land_deeds = [], verification_requests = []\<rparr>"

definition example_row :: deed_row where
  "example_row = \<lparr>deed_id = 1, deed_number = ''LD-2024-001'', title = ''Lot 7'',
     description = None, owner_id = 2, property_address = ''12 Galle Road'',
     survey_plan_number = None, extent = ''10 perches'', boundaries = None,
     document_hash = None, ipfs_hash = None, blockchain_transaction_id = None,
     verification_status = ''pending'', created_by = 1, verified_by = None,
     created_at = 1700000000000, updated_at = 1700000000000\<rparr>"

definition mock_gateway :: BlockchainService where
  "mock_gateway = \<lparr>mockMode = True, contract = None\<rparr>"

definition mock_store :: IPFSService where
  "mock_store = \<lparr>ipfs = None, initialized = False\<rparr>"

definition example_system0 :: system where
  "example_system0 = \<lparr>db = example_database, ledger = Map.empty\<rparr>"

definition example_system1 :: system where
  "example_system1 =
     \<lparr>db = example_database\<lparr>deeds := [example_row\<lparr>blockchain_transaction_id :=
            Some ''mock_tx_1700000000003'', updated_at := 1700000000005\<rparr>], deeds_id_seq := 2\<rparr>,
      ledger = Map.empty\<rparr>"

definition failing_contract :: contract where
  "failing_contract =
     \<lparr>submitTransaction = (\<lambda>name args w. (Inl (Error ''UNAVAILABLE''), w)),
      evaluateTransaction = (\<lambda>name args w. Inl (Error ''UNAVAILABLE''))\<rparr>"

definition failing_gateway :: BlockchainService where
  "failing_gateway = \<lparr>mockMode = False, contract = Some failing_contract\<rparr>"

definition failing_store :: IPFSService where
  "failing_store =
     \<lparr>ipfs = Some \<lparr>ipfs_add = (\<lambda>name content. Inl (Error ''ECONNREFUSED'')),
                     ipfs_cat = (\<lambda>cid. Inl (Error ''ECONNREFUSED''))\<rparr>,
      initialized = True\<rparr>"




definition example_land_deed :: land_deed_row where
  "example_land_deed = \<lparr>ld_id = ''9f1c2d3e-4b5a-4c6d-8e7f-0a1b2c3d4e5f'',
     ld_deed_number = ''LD-2024-001'', ld_owner_id = ''u-alice'',
     ld_verification_status = ''pending''\<rparr>"

definition example_request :: request_row where
  "example_request = \<lparr>request_id = ''123e4567-e89b-12d3-a456-426614174000'',
     request_deed_id = ''9f1c2d3e-4b5a-4c6d-8e7f-0a1b2c3d4e5f'', requester_id = ''u-alice'',
     request_type = ''ownership'', request_details = None, request_status = ''pending'',
     response_details = None, processed_at = None, processed_by = None,
     request_created_at = 1700000000000\<rparr>"

definition requests_database0 :: database where
  "requests_database0 = example_database\<lparr>land_deeds := [example_land_deed]\<rparr>"

definition requests_database1 :: database where
  "requests_database1 = requests_database0\<lparr>verification_requests := [example_request]\<rparr>"

definition alice :: user where
  "alice = \<lparr>user_id = ''u-alice'', role = ''citizen''\<rparr>"

definition official :: user where
  "official = \<lparr>user_id = ''u-gov'', role = ''government_official''\<rparr>"

definition request_body :: obj where
  "request_body = [(''deedId'', JStr ''9f1c2d3e-4b5a-4c6d-8e7f-0a1b2c3d4e5f''),
                   (''requestType'', JStr ''ownership'')]"

definition approve_body :: obj where
  "approve_body = [(''status'', JStr ''approved''), (''responseDetails'', JStr ''title checked'')]"

definition reject_request_body :: obj where
  "reject_request_body = [(''status'', JStr ''rejected'')]"

definition processed_database :: database where
  "processed_database = requests_database0\<lparr>verification_requests :=
     [example_request\<lparr>request_status := ''approved'', response_details := Some ''title checked'',
        processed_at := Some 1700000000005, processed_by := Some ''u-gov''\<rparr>]\<rparr>"

definition second_readings :: readings where
  "second_readings = example_readings\<lparr>insert_time := 1700000000001,
     update_time := 1700000000006, fresh_uuid := ''7c9e6679-7425-40de-944b-e07fc1f90ae7''\<rparr>"

definition second_request :: request_row where
  "second_request = example_request\<lparr>request_id := ''7c9e6679-7425-40de-944b-e07fc1f90ae7'',
     request_created_at := 1700000000001\<rparr>"

definition two_pending_database :: database where
  "two_pending_database =
     requests_database0\<lparr>verification_requests := [example_request, second_request]\<rparr>"

definition second_official :: user where
  "second_official = \<lparr>user_id = ''u-gov-2'', role = ''government_official''\<rparr>"

definition authenticity_database :: database where
  "authenticity_database = requests_database0\<lparr>verification_requests :=
     [example_request\<lparr>request_type := ''authenticity''\<rparr>]\<rparr>"

definition rejected_database :: database where
  "rejected_database = requests_database0\<lparr>verification_requests :=
     [example_request\<lparr>request_type := ''authenticity'', request_status := ''rejected'',
        processed_at := Some 1700000000005, processed_by := Some ''u-gov''\<rparr>]\<rparr>"

definition overwritten_database :: database where
  "overwritten_database = requests_database0\<lparr>verification_requests :=
     [example_request\<lparr>request_status := ''rejected'', response_details := None,
        processed_at := Some 1700000000006, processed_by := Some ''u-gov-2''\<rparr>]\<rparr>"

definition blockchain_verify_body :: obj where
  "blockchain_verify_body = [(''verificationResult'', JStr ''verified'')]"

section \<open>Properties of the text renderings\<close>

lemma digit_char_inj: "a < 10 \<Longrightarrow> b < 10 \<Longrightarrow> digit_char a = digit_char b \<Longrightarrow> a = b"
proof -
  assume a: "a < 10" and b: "b < 10" and e: "digit_char a = digit_char b"
  have d: "distinct ''0123456789''" by simp
  have "length ''0123456789'' = 10" by simp
  with a b d e show "a = b"
    unfolding digit_char_def by (metis nth_eq_iff_index_eq)
qed

lemma dec_nonempty: "dec n \<noteq> []"
  by (subst dec.simps) simp

lemma dec_small: "n < 10 \<Longrightarrow> dec n = [digit_char n]"
  by (subst dec.simps) simp

lemma dec_large: "\<not> n < 10 \<Longrightarrow> dec n = dec (n div 10) @ [digit_char (n mod 10)]"
  by (subst dec.simps) simp

lemma dec_inj: "dec m = dec n \<Longrightarrow> m = n"
proof (induction m arbitrary: n rule: dec.induct)
  case (1 m)
  show ?case
  proof (cases "m < 10")
    case True
    show ?thesis
    proof (cases "n < 10")
      case True
      with \<open>m < 10\<close> "1.prems" show ?thesis
        by (simp add: dec_small digit_char_inj)
    next
      case False
      with \<open>m < 10\<close> "1.prems" show ?thesis
        using dec_nonempty [of "n div 10"] by (simp add: dec_small dec_large)
    qed
  next
    case False
    show ?thesis
    proof (cases "n < 10")
      case True
      with False "1.prems" show ?thesis
        using dec_nonempty [of "m div 10"] by (simp add: dec_small dec_large)
    next
      case nl: False
      from False nl "1.prems"
      have e: "dec (m div 10) @ [digit_char (m mod 10)] = dec (n div 10) @ [digit_char (n mod 10)]"
        by (simp add: dec_large)
      then have e1: "dec (m div 10) = dec (n div 10)"
        and e2: "digit_char (m mod 10) = digit_char (n mod 10)" by simp_all
      from "1.IH" [OF False e1] have q: "m div 10 = n div 10" .
      from e2 have r: "m mod 10 = n mod 10" by (simp add: digit_char_inj)
      from q r show ?thesis by (metis div_mult_mod_eq)
    qed
  qed
qed

lemma hex_digit_lower: "d < 16 \<Longrightarrow> is_lower_hex (hex_digit d)"
proof -
  assume "d < 16"
  then have "d < length ''0123456789abcdef''" by simp
  then show ?thesis
    unfolding is_lower_hex_def hex_digit_def by (rule nth_mem)
qed

lemma hex_byte_lower: "c \<in> set (hex_byte b) \<Longrightarrow> is_lower_hex c"
proof -
  assume c: "c \<in> set (hex_byte b)"
  have "unat b < 256" using unsigned_less [of b] by simp
  then have "unat b div 16 < 16" by simp
  moreover have "unat b mod 16 < 16" by simp
  ultimately show ?thesis using c by (auto simp: hex_byte_def hex_digit_lower)
qed

lemma hex_lower: "c \<in> set (hex bs) \<Longrightarrow> is_lower_hex c"
  by (auto simp: hex_def hex_byte_lower)

lemma length_hex: "length (hex bs) = 2 * length bs"
  by (induction bs) (simp_all add: hex_def hex_byte_def)

lemma length_sha256: "length (sha256 m) = 32"
  by (simp add: sha256_def bytes_of_word_def split: prod.splits)

section \<open>The deed ledger\<close>

subsection \<open>No entry under the empty key\<close>

text \<open>
  \<^verbatim>\<open>PutState\<close> rejects the empty key, so a world that has no entry under it keeps none
  through every transaction.
\<close>

lemma commit_empty_key:
  "w [] = None \<Longrightarrow> list_all (\<lambda>kv. fst kv \<noteq> []) ws \<Longrightarrow> commit w ws [] = None"
  unfolding commit_def by (induction ws arbitrary: w) auto

lemma PutState_keys:
  "PutState k v s = Inr s' \<Longrightarrow> list_all (\<lambda>kv. fst kv \<noteq> []) (writes s)
     \<Longrightarrow> list_all (\<lambda>kv. fst kv \<noteq> []) (writes s') \<and> state s' = state s"
  by (auto simp: PutState_def split: if_splits)

lemma TransferDeed_keys:
  "TransferDeed t1 t2 t3 td s = (r, s') \<Longrightarrow> list_all (\<lambda>kv. fst kv \<noteq> []) (writes s)
     \<Longrightarrow> list_all (\<lambda>kv. fst kv \<noteq> []) (writes s')"
  by (auto simp: TransferDeed_def Let_def split: option.splits sum.splits if_splits
        dest!: PutState_keys)

lemma CreateDeed_keys:
  "CreateDeed now dd s = (r, s') \<Longrightarrow> list_all (\<lambda>kv. fst kv \<noteq> []) (writes s)
     \<Longrightarrow> list_all (\<lambda>kv. fst kv \<noteq> []) (writes s')"
  by (auto simp: CreateDeed_def Let_def split: option.splits sum.splits if_splits
        dest!: PutState_keys)

lemma invoke_empty_key:
  assumes "w [] = None"
    and "\<And>r s'. f \<lparr>state = w, writes = []\<rparr> = (r, s') \<Longrightarrow> list_all (\<lambda>kv. fst kv \<noteq> []) (writes s')"
  shows "snd (invoke f w) [] = None"
  using assms by (auto simp: invoke_def commit_empty_key split: prod.splits option.splits)

lemma ledger_never_holds_empty_key:
  "w [] = None \<Longrightarrow> snd (invoke (CreateDeed now dd) w) [] = None"
  "w [] = None \<Longrightarrow> snd (invoke (TransferDeed t1 t2 t3 td) w) [] = None"
  by (rule invoke_empty_key, assumption, erule CreateDeed_keys, simp)
     (rule invoke_empty_key, assumption, erule TransferDeed_keys, simp)

subsection \<open>Transfer of ownership\<close>

lemma transfer_key_neq: "transfer_key k t \<noteq> k"
proof
  assume "transfer_key k t = k"
  then have "length (transfer_key k t) = length k" by simp
  then show False by (simp add: transfer_key_def)
qed

lemma transfer_key_nonempty: "transfer_key k t \<noteq> []"
  by (simp add: transfer_key_def)

text \<open>
  Claim C1. Let a deed be stored under the transfer's deed identifier. If the transfer's
  from-owner differs from the deed's current owner, \<^verbatim>\<open>TransferDeed\<close> fails with
  \<open>OwnershipMismatch\<close> before any \<^verbatim>\<open>PutState\<close>: the stub's write set and the world state
  are unchanged, so the deed keeps every field and no transfer record exists. If the
  from-owner matches, the transaction commits exactly two writes: the deed with the owner
  set to the to-owner, the status \<^verbatim>\<open>transferred\<close> and the update time stamped, all other
  fields kept, and the transfer record under its generated key.
\<close>

theorem TransferDeed_ownership_guard:
  assumes "w [] = None" and "w (DeedID t) = Some (DeedJSON d)"
  shows "if OwnerID d \<noteq> FromOwnerID t
         then TransferDeed t1 t2 t3 (Some t) \<lparr>state = w, writes = []\<rparr>
                = (Some OwnershipMismatch, \<lparr>state = w, writes = []\<rparr>)
              \<and> invoke (TransferDeed t1 t2 t3 (Some t)) w = (Some OwnershipMismatch, w)
         else invoke (TransferDeed t1 t2 t3 (Some t)) w =
                (None, w(DeedID t \<mapsto> DeedJSON (d\<lparr>OwnerID := ToOwnerID t, Status := ''transferred'',
                                                   UpdatedAt := t1\<rparr>),
                         transfer_key (DeedID t) t2 \<mapsto>
                           TransferJSON (t\<lparr>TransferID := transfer_key (DeedID t) t2,
                                          TransferCreatedAt := t3\<rparr>)))
              \<and> GetDeed \<lparr>state = snd (invoke (TransferDeed t1 t2 t3 (Some t)) w), writes = []\<rparr> (DeedID t)
                  = Inr (d\<lparr>OwnerID := ToOwnerID t, Status := ''transferred'', UpdatedAt := t1\<rparr>)"
proof -
  from assms have ne: "DeedID t \<noteq> []" by auto
  have g: "GetDeed \<lparr>state = w, writes = []\<rparr> (DeedID t) = Inr d"
    using assms(2) by (simp add: GetDeed_def GetState_def)
  show ?thesis
  proof (cases "OwnerID d \<noteq> FromOwnerID t")
    case True
    then show ?thesis using g by (simp add: TransferDeed_def invoke_def)
  next
    case False
    then show ?thesis using g ne transfer_key_neq [of "DeedID t" t2]
      by (simp add: TransferDeed_def invoke_def PutState_def Let_def commit_def
            transfer_key_nonempty GetDeed_def GetState_def)
  qed
qed

theorem TransferDeed_ownership_guard_witness:
  "[''deed-1'' \<mapsto> DeedJSON example_deed] [] = None
   \<and> [''deed-1'' \<mapsto> DeedJSON example_deed] (DeedID (example_transfer ''carol'')) = Some (DeedJSON example_deed)
   \<and> invoke (TransferDeed 5000000000 6000000000 7000000000 (Some (example_transfer ''carol'')))
        [''deed-1'' \<mapsto> DeedJSON example_deed]
       = (Some OwnershipMismatch, [''deed-1'' \<mapsto> DeedJSON example_deed])
   \<and> invoke (TransferDeed 5000000000 6000000000 7000000000 (Some (example_transfer ''alice'')))
        [''deed-1'' \<mapsto> DeedJSON example_deed]
       = (None, [''deed-1'' \<mapsto> DeedJSON (example_deed\<lparr>OwnerID := ''bob'', Status := ''transferred'',
                                              UpdatedAt := 5000000000\<rparr>),
                 ''transfer_deed-1_6'' \<mapsto> TransferJSON ((example_transfer ''alice'')
                     \<lparr>TransferID := ''transfer_deed-1_6'', TransferCreatedAt := 7000000000\<rparr>)])"
  using TransferDeed_ownership_guard
          [of "[''deed-1'' \<mapsto> DeedJSON example_deed]" "example_transfer ''carol''" example_deed
              5000000000 6000000000 7000000000]
        TransferDeed_ownership_guard
          [of "[''deed-1'' \<mapsto> DeedJSON example_deed]" "example_transfer ''alice''" example_deed
              5000000000 6000000000 7000000000]
  by (simp add: example_deed_def example_transfer_def transfer_key_def Unix_def dec.simps
        digit_char_def)

subsection \<open>Creation\<close>

lemma CreateDeed_existing:
  "w (ID deed) \<noteq> None \<Longrightarrow>
     invoke (CreateDeed now (Some deed)) w = (Some (AlreadyExists (ID deed)), w)"
  by (simp add: invoke_def CreateDeed_def DeedExists_def GetState_def)

lemma CreateDeed_fresh:
  assumes "w (ID deed) = None" and "ID deed \<noteq> []"
    and "CreateCompositeKey ''deedNumber'' [DeedNumber deed] = Inr k"
  shows "invoke (CreateDeed now (Some deed)) w =
           (None, w(ID deed \<mapsto> DeedJSON (deed\<lparr>CreatedAt := now, UpdatedAt := now,
                                   Status := ''pending'', VerificationStatus := ''pending''\<rparr>),
                    k \<mapsto> RawBytes (ID deed)))"
proof -
  from assms(3) have "k \<noteq> []" by (auto simp: CreateCompositeKey_def split: if_splits)
  with assms show ?thesis
    by (simp add: invoke_def CreateDeed_def DeedExists_def GetState_def PutState_def Let_def
          commit_def)
qed

text \<open>
  A deed created under a fresh identifier is read back by its number, provided the
  identifier is not the index key of the number itself.
\<close>

lemma CreateDeed_then_GetDeedByNumber:
  assumes "w (ID deed) = None" and "ID deed \<noteq> []"
    and "CreateCompositeKey ''deedNumber'' [DeedNumber deed] = Inr k" and "k \<noteq> ID deed"
  shows "GetDeedByNumber \<lparr>state = snd (invoke (CreateDeed now (Some deed)) w), writes = []\<rparr>
           (DeedNumber deed) =
         Inr (deed\<lparr>CreatedAt := now, UpdatedAt := now, Status := ''pending'',
                    VerificationStatus := ''pending''\<rparr>)"
  using assms
  by (simp add: CreateDeed_fresh GetDeedByNumber_def GetDeed_def GetState_def)

section \<open>The mock Ledger Gateway\<close>

text \<open>
  Claim C10. In mock mode a \<^verbatim>\<open>getDeed\<close> read succeeds for every deed number and every
  world state, also the empty one in which no deed was ever created, and returns the
  synthesized record: the queried number, the owner \<^verbatim>\<open>'Mock Owner'\<close>, the literal status
  \<^verbatim>\<open>'verified'\<close> and the time of the call. No mock read fails.
\<close>

theorem getDeed_mock_always_verified:
  assumes "mockMode svc"
  shows "getDeed svc now deedNumber w =
           Inr [(''deedNumber'', JStr deedNumber), (''owner'', JStr ''Mock Owner''),
                (''status'', JStr ''verified''), (''timestamp'', JDate now)]"
  using assms by (simp add: getDeed_def)

theorem getDeed_mock_always_verified_witness:
  "mockMode \<lparr>mockMode = True, contract = None\<rparr> \<and>
   getDeed \<lparr>mockMode = True, contract = None\<rparr> 1700000000000 ''LD-404'' Map.empty =
     Inr [(''deedNumber'', JStr ''LD-404''), (''owner'', JStr ''Mock Owner''),
          (''status'', JStr ''verified''), (''timestamp'', JDate 1700000000000)]"
  using getDeed_mock_always_verified
          [of "\<lparr>mockMode = True, contract = None\<rparr>" 1700000000000 "''LD-404''" Map.empty]
  by simp

lemma mock_tx_id_inj:
  "(envelope_id (Inr [(''transactionId'', JStr (p @ dec t1)), x, y], w1) =
    envelope_id (Inr [(''transactionId'', JStr (p @ dec t2)), x', y'], w2)) = (t1 = t2)"
  by (auto simp: envelope_id_def member_def dest: dec_inj)

text \<open>
  Claim C9, as the code has it. In mock mode \<^verbatim>\<open>createDeed\<close> returns exactly the members
  \<^verbatim>\<open>transactionId\<close>, \<^verbatim>\<open>blockNumber\<close>, \<^verbatim>\<open>success\<close>, and \<^verbatim>\<open>verifyDeed\<close> exactly
  \<^verbatim>\<open>transactionId\<close>, \<^verbatim>\<open>verified\<close>, \<^verbatim>\<open>timestamp\<close>; neither envelope has a degraded flag and
  neither write touches the world state. The identifier is a fixed prefix followed by the
  millisecond clock reading, so two mock writes of the same kind carry distinct identifiers
  exactly when their clock readings differ, and a \<^verbatim>\<open>createDeed\<close> identifier never equals a
  \<^verbatim>\<open>verifyDeed\<close> identifier.
\<close>

theorem mock_write_envelopes:
  assumes "mockMode svc"
  shows "createDeed svc t1 r1 d1 w1 =
           (Inr [(''transactionId'', JStr (''mock_tx_'' @ dec t1)),
                 (''blockNumber'', JNum (int r1)), (''success'', JBool True)], w1)
       \<and> verifyDeed svc t1 n1 v1 w1 =
           (Inr [(''transactionId'', JStr (''mock_verification_'' @ dec t1)),
                 (''verified'', JBool True), (''timestamp'', JDate t1)], w1)
       \<and> (envelope_id (createDeed svc t1 r1 d1 w1) = envelope_id (createDeed svc t2 r2 d2 w2))
           = (t1 = t2)
       \<and> (envelope_id (verifyDeed svc t1 n1 v1 w1) = envelope_id (verifyDeed svc t2 n2 v2 w2))
           = (t1 = t2)
       \<and> envelope_id (createDeed svc t1 r1 d1 w1) \<noteq> envelope_id (verifyDeed svc t2 n2 v2 w2)"
proof -
  have c: "\<And>t r d w. createDeed svc t r d w =
           (Inr [(''transactionId'', JStr (''mock_tx_'' @ dec t)),
                 (''blockNumber'', JNum (int r)), (''success'', JBool True)], w)"
    using assms by (simp add: createDeed_def)
  have v: "\<And>t n d w. verifyDeed svc t n d w =
           (Inr [(''transactionId'', JStr (''mock_verification_'' @ dec t)),
                 (''verified'', JBool True), (''timestamp'', JDate t)], w)"
    using assms by (simp add: verifyDeed_def)
  have i1: "(envelope_id (createDeed svc t1 r1 d1 w1) = envelope_id (createDeed svc t2 r2 d2 w2))
           = (t1 = t2)"
    unfolding c by (rule mock_tx_id_inj)
  have i2: "(envelope_id (verifyDeed svc t1 n1 v1 w1) = envelope_id (verifyDeed svc t2 n2 v2 w2))
           = (t1 = t2)"
    unfolding v by (rule mock_tx_id_inj)
  have i3: "envelope_id (createDeed svc t1 r1 d1 w1) \<noteq> envelope_id (verifyDeed svc t2 n2 v2 w2)"
    unfolding c v by (simp add: envelope_id_def member_def)
  from c v i1 i2 i3 show ?thesis by blast
qed

theorem mock_write_envelopes_witness:
  "mockMode \<lparr>mockMode = True, contract = None\<rparr>
   \<and> createDeed \<lparr>mockMode = True, contract = None\<rparr> 1700000000000 417
        [(''deedNumber'', JStr ''LD-1'')] Map.empty =
        (Inr [(''transactionId'', JStr ''mock_tx_1700000000000''),
              (''blockNumber'', JNum 417), (''success'', JBool True)], Map.empty)
   \<and> verifyDeed \<lparr>mockMode = True, contract = None\<rparr> 1700000000000 ''LD-1''
        [(''verifierId'', JNum 2)] Map.empty =
        (Inr [(''transactionId'', JStr ''mock_verification_1700000000000''),
              (''verified'', JBool True), (''timestamp'', JDate 1700000000000)], Map.empty)
   \<and> envelope_id (createDeed \<lparr>mockMode = True, contract = None\<rparr> 1700000000000 417
        [(''deedNumber'', JStr ''LD-1'')] Map.empty)
     \<noteq> envelope_id (createDeed \<lparr>mockMode = True, contract = None\<rparr> 1700000000001 417
        [(''deedNumber'', JStr ''LD-2'')] Map.empty)"
  using mock_write_envelopes
          [of "\<lparr>mockMode = True, contract = None\<rparr>" 1700000000000 417
              "[(''deedNumber'', JStr ''LD-1'')]" Map.empty "''LD-1''" "[(''verifierId'', JNum 2)]"
              1700000000001 417 "[(''deedNumber'', JStr ''LD-2'')]" Map.empty "''LD-2''" "[]"]
  by (simp add: createDeed_def verifyDeed_def envelope_id_def member_def dec.simps digit_char_def)

text \<open>
  Two distinct mock writes issued at the same instant, for two different deeds, return the
  same synthetic identifier, and the envelope has no member besides \<^verbatim>\<open>transactionId\<close>,
  \<^verbatim>\<open>blockNumber\<close> and \<^verbatim>\<open>success\<close>.
\<close>

theorem mock_writes_same_instant_counterexample:
  "envelope_id (createDeed \<lparr>mockMode = True, contract = None\<rparr> 1700000000000 417
        [(''deedNumber'', JStr ''LD-1'')] Map.empty)
     = envelope_id (createDeed \<lparr>mockMode = True, contract = None\<rparr> 1700000000000 902
        [(''deedNumber'', JStr ''LD-2'')] Map.empty)
   \<and> fst (createDeed \<lparr>mockMode = True, contract = None\<rparr> 1700000000000 417
        [(''deedNumber'', JStr ''LD-1'')] Map.empty) =
        Inr [(''transactionId'', JStr ''mock_tx_1700000000000''),
             (''blockNumber'', JNum 417), (''success'', JBool True)]"
  by (simp add: createDeed_def envelope_id_def member_def dec.simps digit_char_def)

section \<open>The mock Document Store\<close>

text \<open>
  Claim C8, as the code has it. For every byte payload a Put on the mock backend succeeds
  and returns a valid-looking address: \<^verbatim>\<open>Qm\<close> followed by the lowercase hexadecimal text
  of the 32 random bytes (66 characters), together with the payload's length, the path
  \<^verbatim>\<open>/ipfs/<address>\<close> and the mock flag. The mock stores nothing: a later Get on the same
  mock backend fails for every address, also for the address the Put just returned.
\<close>

theorem mock_put_then_get:
  assumes "\<not> initialized svc" and "length rnd = 32"
  shows "uploadBuffer svc rnd buffer filename =
           Inr [(''hash'', JStr (''Qm'' @ hex rnd)), (''size'', JNum (int (length buffer))),
                (''path'', JStr (''/ipfs/'' @ ''Qm'' @ hex rnd)), (''mock'', JBool True)]
       \<and> length (''Qm'' @ hex rnd) = 66
       \<and> list_all is_lower_hex (hex rnd)
       \<and> getFileBuffer svc (''Qm'' @ hex rnd) =
           Inl (Error ''IPFS not initialized - cannot retrieve file'')
       \<and> getFileBuffer svc address = Inl (Error ''IPFS not initialized - cannot retrieve file'')"
  using assms
  by (simp add: uploadBuffer_def upload_result_def getFileBuffer_def length_hex
        list_all_iff hex_lower Let_def)

theorem mock_put_then_get_witness:
  "\<not> initialized \<lparr>ipfs = None, initialized = False\<rparr>
   \<and> length (replicate 32 (0xAB :: byte)) = 32
   \<and> uploadBuffer \<lparr>ipfs = None, initialized = False\<rparr> (replicate 32 0xAB) [1, 2, 3] ''deed.pdf'' =
        Inr [(''hash'', JStr (''Qm'' @ hex (replicate 32 0xAB))), (''size'', JNum 3),
             (''path'', JStr (''/ipfs/'' @ ''Qm'' @ hex (replicate 32 0xAB))), (''mock'', JBool True)]
   \<and> getFileBuffer \<lparr>ipfs = None, initialized = False\<rparr> (''Qm'' @ hex (replicate 32 0xAB)) =
        Inl (Error ''IPFS not initialized - cannot retrieve file'')"
  using mock_put_then_get
          [of "\<lparr>ipfs = None, initialized = False\<rparr>" "replicate 32 0xAB" "[1, 2, 3]" "''deed.pdf''"]
  by simp

text \<open>
  The round trip fails on the mock: the Put of the three bytes 1, 2, 3 returns an address,
  and the Get of that address throws instead of returning the bytes.
\<close>

theorem mock_round_trip_counterexample:
  "uploadBuffer \<lparr>ipfs = None, initialized = False\<rparr>
       [0x01, 0x02, 0x03, 0x04, 0x05, 0x06, 0x07, 0x08, 0x09, 0x0A, 0x0B, 0x0C, 0x0D, 0x0E, 0x0F, 0x10,
        0x11, 0x12, 0x13, 0x14, 0x15, 0x16, 0x17, 0x18, 0x19, 0x1A, 0x1B, 0x1C, 0x1D, 0x1E, 0x1F, 0x20]
       [1, 2, 3] ''deed.pdf'' =
     Inr [(''hash'', JStr ''Qm0102030405060708090a0b0c0d0e0f101112131415161718191a1b1c1d1e1f20''),
          (''size'', JNum 3),
          (''path'', JStr ''/ipfs/Qm0102030405060708090a0b0c0d0e0f101112131415161718191a1b1c1d1e1f20''),
          (''mock'', JBool True)]
   \<and> getFileBuffer \<lparr>ipfs = None, initialized = False\<rparr>
       ''Qm0102030405060708090a0b0c0d0e0f101112131415161718191a1b1c1d1e1f20'' \<noteq> Inr [1, 2, 3]
   \<and> getFileBuffer \<lparr>ipfs = None, initialized = False\<rparr>
       ''Qm0102030405060708090a0b0c0d0e0f101112131415161718191a1b1c1d1e1f20'' =
     Inl (Error ''IPFS not initialized - cannot retrieve file'')"
  by (simp add: uploadBuffer_def upload_result_def getFileBuffer_def hex_def hex_byte_def
        hex_digit_def Let_def)

section \<open>The Deed Coordinator\<close>

subsection \<open>What one query changes\<close>

text \<open>A text no longer than its column fits and is stored as it is.\<close>

lemma fits_short: "length t \<le> n \<Longrightarrow> fits n t \<and> varchar n t = t"
  by (simp add: fits_def varchar_def)

lemma fits_opt_short:
  "length (case v of None \<Rightarrow> [] | Some t \<Rightarrow> t) \<le> n \<Longrightarrow> fits_opt n v \<and> varchar_opt n v = v"
  by (cases v) (simp_all add: fits_opt_def varchar_opt_def fits_short)

lemma insert_deed_cases:
  assumes "insert_deed now p1 p2 p3 p4 p5 p6 p7 p8 p9 p10 p11 d = (res, d')"
  shows "users d' = users d \<and> verification_logs d' = verification_logs d \<and>
         logs_id_seq d' = logs_id_seq d \<and> land_deeds d' = land_deeds d \<and>
         verification_requests d' = verification_requests d \<and>
         deeds_id_seq d \<le> deeds_id_seq d' \<and>
         (case res of
            Inl e \<Rightarrow> deeds d' = deeds d
          | Inr r \<Rightarrow> deeds d' = deeds d @ [r] \<and> deed_id r = deeds_id_seq d \<and>
                     deeds_id_seq d' = Suc (deeds_id_seq d) \<and>
                     deed_number r \<notin> set (map deed_number (deeds d)) \<and>
                     deed_number r = varchar 100 p1 \<and>
                     document_hash r = varchar_opt 255 p9 \<and>
                     ipfs_hash r = varchar_opt 255 p10)"
  using assms
  by (auto simp: insert_deed_def Let_def deeds_constraints_def split: if_splits)

lemma update_transaction_id_Inr:
  "update_transaction_id now txid i d = Inr d' \<Longrightarrow>
     map deed_number (deeds d') = map deed_number (deeds d) \<and>
     map deed_id (deeds d') = map deed_id (deeds d) \<and>
     map document_hash (deeds d') = map document_hash (deeds d) \<and>
     map ipfs_hash (deeds d') = map ipfs_hash (deeds d) \<and>
     users d' = users d \<and> deeds_id_seq d' = deeds_id_seq d \<and>
     logs_id_seq d' = logs_id_seq d \<and>
     verification_requests d' = verification_requests d \<and>
     verification_logs d' = verification_logs d \<and> land_deeds d' = land_deeds d"
  by (auto simp: update_transaction_id_def split: if_splits)

lemma update_verification_Inr:
  "update_verification now res v i d = Inr d' \<Longrightarrow>
     map deed_number (deeds d') = map deed_number (deeds d) \<and>
     map deed_id (deeds d') = map deed_id (deeds d) \<and>
     users d' = users d \<and> deeds_id_seq d' = deeds_id_seq d \<and>
     logs_id_seq d' = logs_id_seq d \<and>
     verification_requests d' = verification_requests d \<and>
     verification_logs d' = verification_logs d \<and> land_deeds d' = land_deeds d"
  by (auto simp: update_verification_def split: if_splits)

lemma insert_log_cases:
  assumes "insert_log now p1 p2 p3 p4 p5 d = (res, d')"
  shows "deeds d' = deeds d \<and> users d' = users d \<and> deeds_id_seq d' = deeds_id_seq d \<and>
         verification_requests d' = verification_requests d \<and> land_deeds d' = land_deeds d \<and>
         logs_id_seq d \<le> logs_id_seq d' \<and>
         (case res of
            Some e \<Rightarrow> verification_logs d' = verification_logs d
          | None \<Rightarrow> (\<exists>l. verification_logs d' = verification_logs d @ [l] \<and>
                          log_id l = logs_id_seq d \<and> log_deed_id l = p1 \<and>
                          log_verified_by l = p2 \<and> verification_type l = varchar 100 p3) \<and>
                    logs_id_seq d' = Suc (logs_id_seq d))"
  using assms
  by (auto simp: insert_log_def Let_def split: if_splits)

lemma insert_blockchain_log_cases:
  assumes "insert_blockchain_log rd uid n body d = (res, d')"
  shows "deeds d' = deeds d \<and> users d' = users d \<and> deeds_id_seq d' = deeds_id_seq d \<and>
         verification_requests d' = verification_requests d \<and> land_deeds d' = land_deeds d \<and>
         logs_id_seq d \<le> logs_id_seq d' \<and>
         (case res of
            Some e \<Rightarrow> verification_logs d' = verification_logs d
          | None \<Rightarrow> (\<exists>l. verification_logs d' = verification_logs d @ [l] \<and>
                          log_id l = logs_id_seq d) \<and>
                    logs_id_seq d' = Suc (logs_id_seq d))"
proof (cases "isInt (JStr n) \<and> int4 (int_of_text (JStr n))")
  case True
  with assms insert_log_cases [of "insert_time rd" "int_of_text (JStr n)" uid
      "''blockchain_verification''" "opt_text (member body ''verificationResult'')"
      "opt_text (member body ''notes'')" d res d']
  show ?thesis by (auto simp: insert_blockchain_log_def split: option.splits)
next
  case False
  with assms show ?thesis by (auto simp: insert_blockchain_log_def split: if_splits)
qed

lemma insert_request_Inr:
  "insert_request rd p1 p2 p3 p4 p5 d = Inr (r, d') \<Longrightarrow>
     deeds d' = deeds d \<and> users d' = users d \<and> deeds_id_seq d' = deeds_id_seq d \<and>
     logs_id_seq d' = logs_id_seq d \<and> verification_logs d' = verification_logs d \<and>
     land_deeds d' = land_deeds d \<and> verification_requests d' = verification_requests d @ [r]"
  by (auto simp: insert_request_def Let_def split: if_splits)

lemma update_request_frame:
  "deeds (update_request now p1 p2 p3 p4 d) = deeds d \<and>
   users (update_request now p1 p2 p3 p4 d) = users d \<and>
   deeds_id_seq (update_request now p1 p2 p3 p4 d) = deeds_id_seq d \<and>
   logs_id_seq (update_request now p1 p2 p3 p4 d) = logs_id_seq d \<and>
   verification_logs (update_request now p1 p2 p3 p4 d) = verification_logs d \<and>
   land_deeds (update_request now p1 p2 p3 p4 d) = land_deeds d"
  by (simp add: update_request_def)

subsection \<open>What one step changes\<close>

lemma tables_step_refl: "tables_step d d"
  by (simp add: tables_step_def deeds_step_def logs_step_def)

lemma insert_deed_tables:
  "insert_deed now p1 p2 p3 p4 p5 p6 p7 p8 p9 p10 p11 d = (res, d') \<Longrightarrow> tables_step d d'"
  by (drule insert_deed_cases)
     (auto simp: tables_step_def deeds_step_def logs_step_def split: sum.splits)

lemma update_transaction_id_tables:
  "update_transaction_id now txid i d = Inr d' \<Longrightarrow> tables_step d d'"
  by (drule update_transaction_id_Inr) (simp add: tables_step_def deeds_step_def logs_step_def)

lemma update_verification_tables:
  "update_verification now res v i d = Inr d' \<Longrightarrow> tables_step d d'"
  by (drule update_verification_Inr) (simp add: tables_step_def deeds_step_def logs_step_def)

lemma insert_log_tables:
  "insert_log now p1 p2 p3 p4 p5 d = (res, d') \<Longrightarrow> tables_step d d'"
  by (drule insert_log_cases)
     (auto simp: tables_step_def deeds_step_def logs_step_def split: option.splits)

lemma insert_blockchain_log_tables:
  "insert_blockchain_log rd uid n body d = (res, d') \<Longrightarrow> tables_step d d'"
  by (drule insert_blockchain_log_cases)
     (auto simp: tables_step_def deeds_step_def logs_step_def split: option.splits)

lemma insert_request_tables:
  "insert_request rd p1 p2 p3 p4 p5 d = Inr (r, d') \<Longrightarrow> tables_step d d'"
  by (drule insert_request_Inr) (simp add: tables_step_def deeds_step_def logs_step_def)

lemma update_request_tables: "tables_step d (update_request now p1 p2 p3 p4 d)"
  by (simp add: tables_step_def deeds_step_def logs_step_def update_request_frame)

lemma step_tables:
  assumes "step bc ip t s = (t', s')"
  shows "tables_step (db s) (db s')"
proof (cases t)
  case (Create_select rd uid body fl)
  with assms show ?thesis by (auto simp: Let_def tables_step_refl split: if_splits)
next
  case (Create_insert rd uid body fl)
  with assms show ?thesis
    by (auto split: prod.splits sum.splits dest: insert_deed_tables)
next
  case (Create_ledger rd uid body dh deed)
  with assms show ?thesis by (auto simp: tables_step_refl split: prod.splits sum.splits)
next
  case (Create_update rd deed res)
  with assms show ?thesis
    by (auto simp: tables_step_refl split: sum.splits dest: update_transaction_id_tables)
next
  case (Verify_select rd uid i body)
  with assms show ?thesis
    by (auto simp: Let_def tables_step_refl split: if_splits list.splits)
next
  case (Verify_update rd uid i body deed)
  with assms show ?thesis
    by (auto simp: tables_step_refl split: sum.splits dest: update_verification_tables)
next
  case (Verify_log rd uid i body deed)
  with assms show ?thesis
    by (auto split: prod.splits option.splits dest: insert_log_tables)
next
  case (Verify_ledger rd uid body deed)
  with assms show ?thesis by (auto simp: tables_step_refl split: prod.splits)
next
  case (Request_deed rd u body)
  with assms show ?thesis
    by (auto simp: Let_def tables_step_refl split: if_splits list.splits)
next
  case (Request_pending rd u body)
  with assms show ?thesis by (auto simp: tables_step_refl split: if_splits)
next
  case (Request_insert rd u body)
  with assms show ?thesis
    by (auto simp: tables_step_refl split: sum.splits dest: insert_request_tables)
next
  case (Process_select rd u i body)
  with assms show ?thesis
    by (auto simp: Let_def tables_step_refl split: if_splits list.splits)
next
  case (Process_update rd u i body)
  with assms show ?thesis
    by (auto simp: tables_step_refl update_request_tables split: list.splits)
next
  case (BVerify_ledger rd uid n body)
  with assms show ?thesis by (auto simp: tables_step_refl split: prod.splits sum.splits)
next
  case (BVerify_log rd uid n body res)
  with assms show ?thesis
    by (auto split: prod.splits option.splits dest: insert_blockchain_log_tables)
next
  case (Done r)
  with assms show ?thesis by (auto simp: tables_step_refl)
qed

subsection \<open>Identifiers from the sequences\<close>

text \<open>
  At every reachable state the next value of each sequence is unused, so no insert of a
  route fails on a primary key.
\<close>

lemma tables_step_sequences:
  assumes "tables_step d d'" and "sequences_fresh d"
  shows "sequences_fresh d'"
proof -
  from assms(2) have a: "\<forall>x \<in> set (map deed_id (deeds d)). x < deeds_id_seq d"
    and b: "\<forall>l \<in> set (verification_logs d). log_id l < logs_id_seq d"
    by (auto simp: sequences_fresh_def list_all_iff)
  from assms(1) have "deeds_step d d'" by (simp add: tables_step_def)
  then have "\<forall>x \<in> set (map deed_id (deeds d')). x < deeds_id_seq d'"
    unfolding deeds_step_def
  proof (elim disjE exE conjE)
    assume "map deed_id (deeds d') = map deed_id (deeds d)" "deeds_id_seq d \<le> deeds_id_seq d'"
    with a show ?thesis by auto
  next
    fix r assume "deeds d' = deeds d @ [r]" "deed_id r = deeds_id_seq d"
      "deeds_id_seq d' = Suc (deeds_id_seq d)"
    with a show ?thesis by auto
  qed
  moreover from assms(1) have "logs_step d d'" by (simp add: tables_step_def)
  then have "\<forall>l \<in> set (verification_logs d'). log_id l < logs_id_seq d'"
    unfolding logs_step_def using b by (fastforce simp: less_Suc_eq)
  ultimately show ?thesis by (auto simp: sequences_fresh_def list_all_iff)
qed

lemma tables_step_numbers:
  assumes "tables_step d d'" and "distinct (map deed_number (deeds d))"
  shows "distinct (map deed_number (deeds d'))"
proof -
  from assms(1) have "deeds_step d d'" by (simp add: tables_step_def)
  then show ?thesis unfolding deeds_step_def using assms(2) by auto
qed

lemma reachable_sequences_fresh: "reachable ts s \<Longrightarrow> sequences_fresh (db s)"
proof (induction rule: reachable.induct)
  case (initial s)
  then show ?case by (simp add: sequences_fresh_def)
next
  case (arrive ts s t)
  then show ?case by simp
next
  case (query ts s k bc ip t' s')
  from step_tables [OF query.hyps(3)] query.IH show ?case by (rule tables_step_sequences)
qed

lemma reachable_ids_unused:
  assumes "reachable ts s"
  shows "deeds_id_seq (db s) \<notin> set (map deed_id (deeds (db s)))"
    and "logs_id_seq (db s) \<notin> set (map log_id (verification_logs (db s)))"
  using reachable_sequences_fresh [OF assms]
  by (auto simp: sequences_fresh_def list_all_iff)

subsection \<open>Deed numbers\<close>

lemma reachable_distinct_numbers:
  "reachable ts s \<Longrightarrow> distinct (map deed_number (deeds (db s)))"
proof (induction rule: reachable.induct)
  case (initial s)
  then show ?case by simp
next
  case (arrive ts s t)
  then show ?case by simp
next
  case (query ts s k bc ip t' s')
  from step_tables [OF query.hyps(3)] query.IH show ?case by (rule tables_step_numbers)
qed

subsection \<open>A handler run without interruption\<close>

text \<open>
  Each route function above is its handler run to its response with no step of another
  request in between, and running a handler that way leads from a reachable state to a
  reachable state.
\<close>

lemma create_route_run:
  "run bc ip 4 (Create_select rd uid body fl) s =
     (Done (fst (create_route bc ip rd uid body fl s)), snd (create_route bc ip rd uid body fl s))"
  by (simp add: create_route_def Let_def eval_nat_numeral split: prod.splits sum.splits)

lemma verify_route_run:
  "run bc ip 4 (Verify_select rd uid i body) s =
     (Done (fst (verify_route bc rd uid i body s)), snd (verify_route bc rd uid i body s))"
  by (simp add: verify_route_def Let_def eval_nat_numeral
        split: prod.splits sum.splits list.splits option.splits)

lemma blockchain_verify_route_run:
  "run bc ip 2 (BVerify_ledger rd uid n body) s =
     (Done (fst (blockchain_verify_route bc rd uid n body s)),
      snd (blockchain_verify_route bc rd uid n body s))"
  by (simp add: blockchain_verify_route_def eval_nat_numeral
        split: prod.splits sum.splits option.splits)

lemma create_request_route_run:
  "run bc ip 3 (Request_deed rd u body) s =
     (Done (fst (create_request_route rd u body (db s))),
      s\<lparr>db := snd (create_request_route rd u body (db s))\<rparr>)"
  by (simp add: create_request_route_def Let_def eval_nat_numeral
        split: prod.splits sum.splits list.splits)

lemma select_request_nonempty:
  "select_request d i = r # rest \<Longrightarrow> filter (\<lambda>r. request_id r = i) (verification_requests d) \<noteq> []"
proof -
  assume "select_request d i = r # rest"
  then have "r \<in> set (select_request d i)" by simp
  then have "r \<in> set (filter (\<lambda>r. request_id r = i) (verification_requests d))"
    by (auto simp: select_request_def)
  then show ?thesis by (auto simp del: set_filter)
qed

lemma process_request_route_run:
  "run bc ip 2 (Process_select rd u i body) s =
     (Done (fst (process_request_route rd u i body (db s))),
      s\<lparr>db := snd (process_request_route rd u i body (db s))\<rparr>)"
  by (auto simp: process_request_route_def Let_def eval_nat_numeral
        split: list.splits dest: select_request_nonempty)

lemma reachable_run:
  "reachable (ts @ [t]) s \<Longrightarrow> run bc ip n t s = (t', s') \<Longrightarrow> reachable (ts @ [t']) s'"
proof (induction n arbitrary: t s)
  case 0
  then show ?case by simp
next
  case (Suc n)
  obtain t1 s1 where st: "step bc ip t s = (t1, s1)" by (cases "step bc ip t s")
  have "reachable ((ts @ [t])[length ts := t1]) s1"
    by (rule reachable.query [OF Suc.prems(1), where bc = bc and ip = ip]) (simp_all add: st)
  then have "reachable (ts @ [t1]) s1" by simp
  moreover from Suc.prems(2) st have "run bc ip n t1 s1 = (t', s')" by simp
  ultimately show ?case by (rule Suc.IH)
qed

lemma reachable_schedule:
  "reachable ts s \<Longrightarrow> schedule bc ip ks (ts, s) = (ts', s') \<Longrightarrow> reachable ts' s'"
proof (induction ks arbitrary: ts s)
  case Nil
  then show ?case by simp
next
  case (Cons k ks)
  show ?case
  proof (cases "k < length ts")
    case True
    obtain t1 s1 where st: "step bc ip (ts ! k) s = (t1, s1)" by (cases "step bc ip (ts ! k) s")
    from Cons.prems(1) True st have "reachable (ts[k := t1]) s1" by (rule reachable.query)
    moreover from Cons.prems(2) True st have "schedule bc ip ks (ts[k := t1], s1) = (ts', s')"
      by simp
    ultimately show ?thesis by (rule Cons.IH)
  next
    case False
    with Cons.prems(2) have "schedule bc ip ks (ts, s) = (ts', s')" by simp
    with Cons.prems(1) show ?thesis by (rule Cons.IH)
  qed
qed

lemma reachable_create_route:
  assumes "reachable ts s"
  shows "reachable (ts @ [Done (fst (create_route bc ip rd uid body fl s))])
           (snd (create_route bc ip rd uid body fl s))"
proof -
  from assms have "reachable (ts @ [Create_select rd uid body fl]) s"
    by (rule reachable.arrive) simp
  then show ?thesis using create_route_run by (rule reachable_run)
qed

lemma reachable_verify_route:
  assumes "reachable ts s"
  shows "reachable (ts @ [Done (fst (verify_route bc rd uid i body s))])
           (snd (verify_route bc rd uid i body s))"
proof -
  from assms have "reachable (ts @ [Verify_select rd uid i body]) s"
    by (rule reachable.arrive) simp
  then show ?thesis using verify_route_run by (rule reachable_run)
qed

lemma reachable_create_request_route:
  assumes "reachable ts s"
  shows "reachable (ts @ [Done (fst (create_request_route rd u body (db s)))])
           (s\<lparr>db := snd (create_request_route rd u body (db s))\<rparr>)"
proof -
  from assms have "reachable (ts @ [Request_deed rd u body]) s"
    by (rule reachable.arrive) simp
  then show ?thesis
    using create_request_route_run
    by (rule reachable_run)
qed

lemma reachable_process_request_route:
  assumes "reachable ts s"
  shows "reachable (ts @ [Done (fst (process_request_route rd u i body (db s)))])
           (s\<lparr>db := snd (process_request_route rd u i body (db s))\<rparr>)"
proof -
  from assms have "reachable (ts @ [Process_select rd u i body]) s"
    by (rule reachable.arrive) simp
  then show ?thesis
    using process_request_route_run
    by (rule reachable_run)
qed

lemma create_route_conflict:
  assumes "validate_create body = []"
    and "str_of (member body ''deed_number'') \<in> set (map deed_number (deeds (db s)))"
  shows "create_route bc ip rd uid body fl s =
           (Response 409 [(''error'', JStr ''Deed with this number already exists'')], s)"
proof -
  from assms(2) have "select_deeds_by_number (db s) (str_of (member body ''deed_number'')) \<noteq> []"
    by (auto simp: select_deeds_by_number_def filter_empty_conv)
  with assms(1) show ?thesis by (simp add: create_route_def)
qed

lemma unique_row:
  "distinct (map f xs) \<Longrightarrow> v \<in> set (map f xs) \<Longrightarrow> length (filter (\<lambda>r. f r = v) xs) = 1"
proof (induction xs)
  case Nil
  then show ?case by simp
next
  case (Cons x xs)
  show ?case
  proof (cases "f x = v")
    case True
    with Cons.prems have "v \<notin> set (map f xs)" by auto
    then have "filter (\<lambda>r. f r = v) xs = []" by (auto simp: filter_empty_conv)
    with True show ?thesis by simp
  next
    case False
    with Cons show ?thesis by auto
  qed
qed

lemmas validator_defs = validate_create_def notEmpty_def isInt_def str_of_def member_def
  is_digit_def opt_text_def int_of_text_def digits_value_def digit_value_def

lemmas column_defs = fits_def fits_opt_def varchar_def varchar_opt_def int4_def

lemma example_first_create:
  "create_route mock_gateway mock_store example_readings 1 example_body None
     \<lparr>db = example_database, ledger = Map.empty\<rparr> =
   (created_response (example_row\<lparr>blockchain_transaction_id := Some ''mock_tx_1700000000003''\<rparr>),
    \<lparr>db = example_database\<lparr>deeds := [example_row\<lparr>blockchain_transaction_id :=
            Some ''mock_tx_1700000000003'', updated_at := 1700000000005\<rparr>], deeds_id_seq := 2\<rparr>,
     ledger = Map.empty\<rparr>)"
  by (simp add: create_route_def validator_defs example_body_def example_database_def
        example_readings_def example_row_def mock_gateway_def mock_store_def
        select_deeds_by_number_def insert_deed_def deeds_constraints_def Let_def
        createDeed_def update_transaction_id_def dec.simps digit_char_def opt_json_def
        document_hash_of_def ipfs_hash_of_def deedData_of_def column_defs)

text \<open>
  Claim C2, as the code has it. At every state reachable through the routes, with the
  requests interleaved at their awaited calls in any order, each deed number identifies
  at most one row of the relational store, and a create whose deed number is already
  used fails with status 409 (Conflict) and changes neither the relational store, which
  still holds exactly one row for the number, nor the ledger. The ledger itself guards
  the identifier, not the number: \<^verbatim>\<open>CreateDeed\<close> fails with \<open>AlreadyExists\<close> and commits
  nothing when the identifier is taken; otherwise it stores the deed and sets the index
  entry of its number to its identifier.
\<close>

theorem deed_number_uniqueness:
  assumes "reachable ts s"
  shows "distinct (map deed_number (deeds (db s)))
       \<and> (validate_create body = [] \<and>
          str_of (member body ''deed_number'') \<in> set (map deed_number (deeds (db s))) \<longrightarrow>
            create_route bc ip rd uid body fl s =
              (Response 409 [(''error'', JStr ''Deed with this number already exists'')], s)
            \<and> length (select_deeds_by_number (db s) (str_of (member body ''deed_number''))) = 1)
       \<and> (w (ID deed) \<noteq> None \<longrightarrow>
            invoke (CreateDeed now (Some deed)) w = (Some (AlreadyExists (ID deed)), w))
       \<and> (w (ID deed) = None \<and> ID deed \<noteq> [] \<and>
          CreateCompositeKey ''deedNumber'' [DeedNumber deed] = Inr k \<longrightarrow>
            invoke (CreateDeed now (Some deed)) w =
              (None, w(ID deed \<mapsto> DeedJSON (deed\<lparr>CreatedAt := now, UpdatedAt := now,
                                      Status := ''pending'', VerificationStatus := ''pending''\<rparr>),
                       k \<mapsto> RawBytes (ID deed)))
            \<and> snd (invoke (CreateDeed now (Some deed)) w) k = Some (RawBytes (ID deed)))"
proof -
  have d: "distinct (map deed_number (deeds (db s)))"
    using assms by (rule reachable_distinct_numbers)
  have c: "validate_create body = [] \<and>
          str_of (member body ''deed_number'') \<in> set (map deed_number (deeds (db s))) \<longrightarrow>
            create_route bc ip rd uid body fl s =
              (Response 409 [(''error'', JStr ''Deed with this number already exists'')], s)
            \<and> length (select_deeds_by_number (db s) (str_of (member body ''deed_number''))) = 1"
    using create_route_conflict [of body s bc ip rd uid fl]
      unique_row [OF d, of "str_of (member body ''deed_number'')"]
    by (simp add: select_deeds_by_number_def)
  have e: "w (ID deed) \<noteq> None \<longrightarrow>
            invoke (CreateDeed now (Some deed)) w = (Some (AlreadyExists (ID deed)), w)"
    by (simp add: CreateDeed_existing)
  have f: "w (ID deed) = None \<and> ID deed \<noteq> [] \<and>
          CreateCompositeKey ''deedNumber'' [DeedNumber deed] = Inr k \<longrightarrow>
            invoke (CreateDeed now (Some deed)) w =
              (None, w(ID deed \<mapsto> DeedJSON (deed\<lparr>CreatedAt := now, UpdatedAt := now,
                                      Status := ''pending'', VerificationStatus := ''pending''\<rparr>),
                       k \<mapsto> RawBytes (ID deed)))
            \<and> snd (invoke (CreateDeed now (Some deed)) w) k = Some (RawBytes (ID deed))"
    by (simp add: CreateDeed_fresh)
  from d c e f show ?thesis by blast
qed

lemma example_system1_reachable:
  "reachable
     [Done (created_response
              (example_row\<lparr>blockchain_transaction_id := Some ''mock_tx_1700000000003''\<rparr>))]
     example_system1"
proof -
  have "reachable [] example_system0"
    by (rule reachable.initial) (simp_all add: example_system0_def example_database_def)
  from reachable_create_route [OF this, of mock_gateway mock_store example_readings 1
      example_body None]
  show ?thesis
    by (simp add: example_first_create example_system0_def example_system1_def)
qed

theorem deed_number_uniqueness_witness:
  "reachable
     [Done (created_response
              (example_row\<lparr>blockchain_transaction_id := Some ''mock_tx_1700000000003''\<rparr>))]
     example_system1
   \<and> distinct (map deed_number (deeds (db example_system1)))
   \<and> create_route mock_gateway mock_store example_readings 1 example_body None example_system1 =
       (Response 409 [(''error'', JStr ''Deed with this number already exists'')], example_system1)
   \<and> length (select_deeds_by_number (db example_system1) ''LD-2024-001'') = 1
   \<and> invoke (CreateDeed 7000000000 (Some example_deed)) [''deed-1'' \<mapsto> DeedJSON example_deed] =
       (Some (AlreadyExists ''deed-1''), [''deed-1'' \<mapsto> DeedJSON example_deed])
   \<and> snd (invoke (CreateDeed 7000000000 (Some example_deed)) Map.empty)
         (CHR 0x00 # ''deedNumber'' @ CHR 0x00 # ''LD-2024-001'' @ [CHR 0x00]) =
       Some (RawBytes ''deed-1'')"
  using example_system1_reachable
    deed_number_uniqueness [OF example_system1_reachable, of example_body mock_gateway mock_store
      example_readings 1 None "[''deed-1'' \<mapsto> DeedJSON example_deed]" example_deed 7000000000
      "CHR 0x00 # ''deedNumber'' @ CHR 0x00 # ''LD-2024-001'' @ [CHR 0x00]"]
    deed_number_uniqueness [OF example_system1_reachable, of example_body mock_gateway mock_store
      example_readings 1 None Map.empty example_deed 7000000000
      "CHR 0x00 # ''deedNumber'' @ CHR 0x00 # ''LD-2024-001'' @ [CHR 0x00]"]
  by (simp add: validator_defs example_body_def example_system1_def example_database_def
        example_row_def example_deed_def CreateCompositeKey_def select_deeds_by_number_def)

text \<open>
  On the ledger two creates with distinct identifiers and the same deed number both
  succeed: afterwards two deed records carry the number, and the index entry of the
  number points at the second. Through the Coordinator, with the gateway in mock mode,
  a first create succeeds and a second create with the same number fails with status 409,
  and the ledger then holds no index entry for the number at all.
\<close>

theorem ledger_deed_number_counterexample:
  "invoke (CreateDeed 7000000000 (Some example_deed)) Map.empty =
     (None, [''deed-1'' \<mapsto> DeedJSON (example_deed\<lparr>CreatedAt := 7000000000,
                                  UpdatedAt := 7000000000\<rparr>),
             CHR 0x00 # ''deedNumber'' @ CHR 0x00 # ''LD-2024-001'' @ [CHR 0x00]
               \<mapsto> RawBytes ''deed-1''])
   \<and> invoke (CreateDeed 8000000000 (Some (example_deed\<lparr>ID := ''deed-2'', OwnerID := ''bob''\<rparr>)))
       [''deed-1'' \<mapsto> DeedJSON (example_deed\<lparr>CreatedAt := 7000000000, UpdatedAt := 7000000000\<rparr>),
        CHR 0x00 # ''deedNumber'' @ CHR 0x00 # ''LD-2024-001'' @ [CHR 0x00] \<mapsto> RawBytes ''deed-1''] =
     (None, [''deed-1'' \<mapsto> DeedJSON (example_deed\<lparr>CreatedAt := 7000000000,
                                  UpdatedAt := 7000000000\<rparr>),
             CHR 0x00 # ''deedNumber'' @ CHR 0x00 # ''LD-2024-001'' @ [CHR 0x00]
               \<mapsto> RawBytes ''deed-2'',
             ''deed-2'' \<mapsto> DeedJSON (example_deed\<lparr>ID := ''deed-2'', OwnerID := ''bob'',
                                  CreatedAt := 8000000000, UpdatedAt := 8000000000\<rparr>)])
   \<and> DeedNumber (example_deed\<lparr>CreatedAt := 7000000000, UpdatedAt := 7000000000\<rparr>) =
     DeedNumber (example_deed\<lparr>ID := ''deed-2'', OwnerID := ''bob'',
                                  CreatedAt := 8000000000, UpdatedAt := 8000000000\<rparr>)
   \<and> snd (create_route mock_gateway mock_store example_readings 1 example_body None
            example_system0) = example_system1
   \<and> create_route mock_gateway mock_store example_readings 1 example_body None example_system1 =
       (Response 409 [(''error'', JStr ''Deed with this number already exists'')], example_system1)
   \<and> ledger example_system1 (CHR 0x00 # ''deedNumber'' @ CHR 0x00 # ''LD-2024-001'' @ [CHR 0x00])
       = None"
proof -
  have a: "invoke (CreateDeed 7000000000 (Some example_deed)) Map.empty =
     (None, [''deed-1'' \<mapsto> DeedJSON (example_deed\<lparr>CreatedAt := 7000000000,
                                  UpdatedAt := 7000000000\<rparr>),
             CHR 0x00 # ''deedNumber'' @ CHR 0x00 # ''LD-2024-001'' @ [CHR 0x00]
               \<mapsto> RawBytes ''deed-1''])"
    by (simp add: invoke_def CreateDeed_def DeedExists_def GetState_def PutState_def Let_def
          CreateCompositeKey_def commit_def example_deed_def)
  have b: "invoke (CreateDeed 8000000000 (Some (example_deed\<lparr>ID := ''deed-2'', OwnerID := ''bob''\<rparr>)))
       [''deed-1'' \<mapsto> DeedJSON (example_deed\<lparr>CreatedAt := 7000000000, UpdatedAt := 7000000000\<rparr>),
        CHR 0x00 # ''deedNumber'' @ CHR 0x00 # ''LD-2024-001'' @ [CHR 0x00] \<mapsto> RawBytes ''deed-1''] =
     (None, [''deed-1'' \<mapsto> DeedJSON (example_deed\<lparr>CreatedAt := 7000000000,
                                  UpdatedAt := 7000000000\<rparr>),
             CHR 0x00 # ''deedNumber'' @ CHR 0x00 # ''LD-2024-001'' @ [CHR 0x00]
               \<mapsto> RawBytes ''deed-2'',
             ''deed-2'' \<mapsto> DeedJSON (example_deed\<lparr>ID := ''deed-2'', OwnerID := ''bob'',
                                  CreatedAt := 8000000000, UpdatedAt := 8000000000\<rparr>)])"
    by (simp add: invoke_def CreateDeed_def DeedExists_def GetState_def PutState_def Let_def
          CreateCompositeKey_def commit_def example_deed_def fun_upd_twist)
  have c: "snd (create_route mock_gateway mock_store example_readings 1 example_body None
            example_system0) = example_system1"
    by (simp add: example_first_create example_system0_def example_system1_def)
  have d: "create_route mock_gateway mock_store example_readings 1 example_body None
             example_system1 =
       (Response 409 [(''error'', JStr ''Deed with this number already exists'')], example_system1)"
    by (rule create_route_conflict)
       (simp_all add: validator_defs example_body_def example_system1_def example_database_def
          example_row_def)
  have e: "ledger example_system1
             (CHR 0x00 # ''deedNumber'' @ CHR 0x00 # ''LD-2024-001'' @ [CHR 0x00]) = None"
    by (simp add: example_system1_def)
  from a b c d e show ?thesis by simp
qed

subsection \<open>Creation with an attachment\<close>

lemma update_transaction_id_select:
  "update_transaction_id now txid i d = Inr d' \<Longrightarrow>
     map document_hash (select_deeds_by_number d' n) = map document_hash (select_deeds_by_number d n)
   \<and> map ipfs_hash (select_deeds_by_number d' n) = map ipfs_hash (select_deeds_by_number d n)"
proof -
  assume "update_transaction_id now txid i d = Inr d'"
  then have e: "deeds d' = map (\<lambda>r. if deed_id r = i
                       then r\<lparr>blockchain_transaction_id := varchar_opt 255 (opt_text txid),
                              updated_at := now\<rparr>
                       else r) (deeds d)"
    by (auto simp: update_transaction_id_def split: if_splits)
  show ?thesis unfolding select_deeds_by_number_def e
    by (induction "deeds d" arbitrary: d) (auto simp: filter_map comp_def)
qed

lemma insert_deed_succeeds:
  assumes "create_constraints d uid body ih"
    and "str_of (member body ''deed_number'') \<notin> set (map deed_number (deeds d))"
    and "length h \<le> 255"
    and "r = \<lparr>deed_id = deeds_id_seq d, deed_number = str_of (member body ''deed_number''),
               title = str_of (member body ''title''), description = p3,
               owner_id = int_of_text (member body ''owner_id''), property_address = p5,
               survey_plan_number = opt_text (member body ''survey_plan_number''),
               extent = str_of (member body ''extent''), boundaries = p8,
               document_hash = Some h, ipfs_hash = ih,
               blockchain_transaction_id = None, verification_status = ''pending'',
               created_by = uid, verified_by = None, created_at = now, updated_at = now\<rparr>"
  shows "insert_deed now (str_of (member body ''deed_number'')) (str_of (member body ''title''))
             p3 (int_of_text (member body ''owner_id'')) p5
             (opt_text (member body ''survey_plan_number'')) (str_of (member body ''extent''))
             p8 (Some h) ih uid d =
           (Inr r, d\<lparr>deeds_id_seq := Suc (deeds_id_seq d), deeds := deeds d @ [r]\<rparr>)"
proof -
  from assms(1) have
    a: "fits 100 (str_of (member body ''deed_number''))"
       "varchar 100 (str_of (member body ''deed_number'')) = str_of (member body ''deed_number'')"
    and b: "fits 255 (str_of (member body ''title''))"
       "varchar 255 (str_of (member body ''title'')) = str_of (member body ''title'')"
    and c: "fits_opt 100 (opt_text (member body ''survey_plan_number''))"
       "varchar_opt 100 (opt_text (member body ''survey_plan_number'')) =
          opt_text (member body ''survey_plan_number'')"
    and e: "fits 100 (str_of (member body ''extent''))"
       "varchar 100 (str_of (member body ''extent'')) = str_of (member body ''extent'')"
    and f: "fits_opt 255 ih" "varchar_opt 255 ih = ih"
    and i: "int4 (int_of_text (member body ''owner_id''))"
    by (simp_all add: create_constraints_def fits_short fits_opt_short)
  from assms(3) have g: "fits_opt 255 (Some h)" "varchar_opt 255 (Some h) = Some h"
    by (simp_all add: fits_opt_def varchar_opt_def fits_short)
  from assms(1,2) have k: "deeds_constraints d r"
    by (simp add: deeds_constraints_def create_constraints_def assms(4))
  from k a b c e f g i show ?thesis
    by (simp add: insert_deed_def Let_def assms(4))
qed

lemma select_appended:
  assumes "n \<notin> set (map deed_number (deeds d))" and "deed_number r = n"
  shows "select_deeds_by_number (d\<lparr>deeds_id_seq := q, deeds := deeds d @ [r]\<rparr>) n = [r]"
proof -
  from assms(1) have "filter (\<lambda>x. deed_number x = n) (deeds d) = []"
    by (force simp: filter_empty_conv)
  with assms(2) show ?thesis by (simp add: select_deeds_by_number_def)
qed

text \<open>
  Claim C3, as the code has it. Take a create request that passes validation, carries an
  attachment, has an unused deed number and meets the constraints of the table. The
  create answers 201 also when the call of the Document Store or the call of the Ledger
  Gateway throws. The body of the response is exactly the success message and the deed
  row: the row the insert returned, whose document hash is the SHA-256 digest of the
  attachment's bytes as 64 lowercase hexadecimal digits and whose \<^verbatim>\<open>ipfs_hash\<close> is what
  the handler got from the Document Store, with the transaction identifier \<open>tx\<close> set by
  the handler. A failed call of the Document Store shows only as an \<^verbatim>\<open>ipfs_hash\<close> of
  \<^verbatim>\<open>null\<close>, a failed call of the Ledger Gateway only as a \<^verbatim>\<open>blockchain_transaction_id\<close>
  of \<^verbatim>\<open>null\<close>; the handler adds no flag. The one stored row of that number carries the
  same digest and the same \<^verbatim>\<open>ipfs_hash\<close>.
\<close>

theorem create_with_attachment_survives_backends:
  assumes "validate_create body = []"
    and "str_of (member body ''deed_number'') \<notin> set (map deed_number (deeds (db s)))"
    and "create_constraints (db s) uid body (ipfs_hash_of ip rd (Some (path, bytes)))"
  shows "\<exists>tx s'.
           create_route bc ip rd uid body (Some (path, bytes)) s =
             (Response 201
                [(''message'', JStr ''Deed created successfully''),
                 (''deed'', deed_json
                    \<lparr>deed_id = deeds_id_seq (db s),
                     deed_number = str_of (member body ''deed_number''),
                     title = str_of (member body ''title''),
                     description = opt_text (member body ''description''),
                     owner_id = int_of_text (member body ''owner_id''),
                     property_address = str_of (member body ''property_address''),
                     survey_plan_number = opt_text (member body ''survey_plan_number''),
                     extent = str_of (member body ''extent''),
                     boundaries = opt_text (member body ''boundaries''),
                     document_hash = Some (hex (sha256 bytes)),
                     ipfs_hash = ipfs_hash_of ip rd (Some (path, bytes)),
                     blockchain_transaction_id = tx, verification_status = ''pending'',
                     created_by = uid, verified_by = None,
                     created_at = insert_time rd, updated_at = insert_time rd\<rparr>)], s')
         \<and> ((\<exists>e. uploadFile ip (random_bytes rd) path bytes = Inl e) \<longrightarrow>
              ipfs_hash_of ip rd (Some (path, bytes)) = None)
         \<and> ((\<exists>e. fst (createDeed bc (mock_now rd) (random_block rd)
                        (deedData_of rd uid body (Some (hex (sha256 bytes)))) (ledger s)) = Inl e)
              \<longrightarrow> tx = None)
         \<and> map document_hash (select_deeds_by_number (db s') (str_of (member body ''deed_number'')))
             = [Some (hex (sha256 bytes))]
         \<and> map ipfs_hash (select_deeds_by_number (db s') (str_of (member body ''deed_number'')))
             = [ipfs_hash_of ip rd (Some (path, bytes))]
         \<and> length (hex (sha256 bytes)) = 64
         \<and> list_all is_lower_hex (hex (sha256 bytes))"
proof -
  define n where "n = str_of (member body ''deed_number'')"
  define h where "h = hex (sha256 bytes)"
  define ih where "ih = ipfs_hash_of ip rd (Some (path, bytes))"
  define r where "r = \<lparr>deed_id = deeds_id_seq (db s), deed_number = n,
                     title = str_of (member body ''title''),
                     description = opt_text (member body ''description''),
                     owner_id = int_of_text (member body ''owner_id''),
                     property_address = str_of (member body ''property_address''),
                     survey_plan_number = opt_text (member body ''survey_plan_number''),
                     extent = str_of (member body ''extent''),
                     boundaries = opt_text (member body ''boundaries''),
                     document_hash = Some h, ipfs_hash = ih,
                     blockchain_transaction_id = None, verification_status = ''pending'',
                     created_by = uid, verified_by = None,
                     created_at = insert_time rd, updated_at = insert_time rd\<rparr>"
  define db1 where
    "db1 = (db s)\<lparr>deeds_id_seq := Suc (deeds_id_seq (db s)), deeds := deeds (db s) @ [r]\<rparr>"
  have hx: "length h = 64" "list_all is_lower_hex h"
    by (simp_all add: h_def length_hex length_sha256 list_all_iff hex_lower)
  have dh: "document_hash_of (Some (path, bytes)) = Some h"
    by (simp add: document_hash_of_def h_def)
  have sel: "select_deeds_by_number (db s) n = []"
    using assms(2) by (force simp: select_deeds_by_number_def filter_empty_conv n_def)
  have ins: "insert_deed (insert_time rd) n (str_of (member body ''title''))
             (opt_text (member body ''description'')) (int_of_text (member body ''owner_id''))
             (str_of (member body ''property_address''))
             (opt_text (member body ''survey_plan_number'')) (str_of (member body ''extent''))
             (opt_text (member body ''boundaries'')) (Some h) ih uid (db s) = (Inr r, db1)"
    unfolding n_def db1_def
    by (rule insert_deed_succeeds [OF assms(3) [folded ih_def] assms(2)])
       (simp_all add: hx r_def n_def)
  have sel1: "select_deeds_by_number db1 n = [r]"
    unfolding db1_def using assms(2) by (intro select_appended) (simp_all add: n_def r_def)
  have rh: "document_hash r = Some h" "ipfs_hash r = ih" by (simp_all add: r_def)
  have up: "(\<exists>e. uploadFile ip (random_bytes rd) path bytes = Inl e) \<longrightarrow> ih = None"
    by (auto simp: ih_def ipfs_hash_of_def)
  obtain res w where cd: "createDeed bc (mock_now rd) (random_block rd)
                            (deedData_of rd uid body (Some h)) (ledger s) = (res, w)"
    by (cases "createDeed bc (mock_now rd) (random_block rd)
                 (deedData_of rd uid body (Some h)) (ledger s)") blast
  have route: "create_route bc ip rd uid body (Some (path, bytes)) s =
     (case res of
        Inl blockchainError \<Rightarrow> (created_response r, \<lparr>db = db1, ledger = w\<rparr>)
      | Inr blockchainResult \<Rightarrow>
          (case update_transaction_id (update_time rd)
                  (member blockchainResult ''transactionId'') (deed_id r) db1 of
             Inl blockchainError \<Rightarrow> (created_response r, \<lparr>db = db1, ledger = w\<rparr>)
           | Inr db2 \<Rightarrow>
               (created_response
                  (r\<lparr>blockchain_transaction_id :=
                       opt_text (member blockchainResult ''transactionId'')\<rparr>),
                \<lparr>db = db2, ledger = w\<rparr>)))"
    using assms(1) sel ins cd
    by (simp add: create_route_def Let_def n_def [symmetric] dh ih_def [symmetric])
  have goal: "\<exists>tx s'.
      create_route bc ip rd uid body (Some (path, bytes)) s =
        (created_response (r\<lparr>blockchain_transaction_id := tx\<rparr>), s')
      \<and> ((\<exists>e. res = Inl e) \<longrightarrow> tx = None)
      \<and> map document_hash (select_deeds_by_number (db s') n) = [Some h]
      \<and> map ipfs_hash (select_deeds_by_number (db s') n) = [ih]"
  proof (cases res)
    case (Inl e)
    with route sel1 rh show ?thesis
      by (intro exI [of _ None] exI [of _ "\<lparr>db = db1, ledger = w\<rparr>"]) (simp add: r_def)
  next
    case (Inr result)
    show ?thesis
    proof (cases "update_transaction_id (update_time rd)
                  (member result ''transactionId'') (deed_id r) db1")
      case (Inl e)
      with route Inr sel1 rh show ?thesis
        by (intro exI [of _ None] exI [of _ "\<lparr>db = db1, ledger = w\<rparr>"]) (simp add: r_def)
    next
      case upd: (Inr db2)
      from update_transaction_id_select [OF upd, of n] sel1 rh
      have "map document_hash (select_deeds_by_number db2 n) = [Some h]"
        and "map ipfs_hash (select_deeds_by_number db2 n) = [ih]" by simp_all
      with route Inr upd show ?thesis
        by (intro exI [of _ "opt_text (member result ''transactionId'')"]
                exI [of _ "\<lparr>db = db2, ledger = w\<rparr>"]) simp
    qed
  qed
  have g5: "fst (createDeed bc (mock_now rd) (random_block rd)
                 (deedData_of rd uid body (Some h)) (ledger s)) = res"
    by (simp add: cd)
  from goal show ?thesis
  proof (elim exE conjE)
    fix tx s'
    assume g1: "create_route bc ip rd uid body (Some (path, bytes)) s =
                  (created_response (r\<lparr>blockchain_transaction_id := tx\<rparr>), s')"
      and g2: "(\<exists>e. res = Inl e) \<longrightarrow> tx = None"
      and g3: "map document_hash (select_deeds_by_number (db s') n) = [Some h]"
      and g4: "map ipfs_hash (select_deeds_by_number (db s') n) = [ih]"
    show ?thesis
      unfolding n_def [symmetric] h_def [symmetric] ih_def [symmetric] g5
      using g1 g2 g3 g4 up hx
      by (intro exI [of _ tx] exI [of _ s']) (simp add: created_response_def r_def)
  qed
qed

lemmas example_defs = example_body_def example_database_def example_readings_def
  example_row_def example_system0_def

lemma example_degraded_create:
  "create_route failing_gateway failing_store example_readings 1 example_body
     (Some (''uploads/deeds/deed-1.pdf'', [1, 2, 3])) example_system0 =
   (created_response (example_row\<lparr>document_hash := Some (hex (sha256 [1, 2, 3]))\<rparr>),
    \<lparr>db = example_database\<lparr>deeds := [example_row\<lparr>document_hash :=
            Some (hex (sha256 [1, 2, 3]))\<rparr>], deeds_id_seq := 2\<rparr>,
     ledger = Map.empty\<rparr>)"
proof -
  have "length (hex (sha256 [1, 2, 3])) = 64" by (simp add: length_hex length_sha256)
  then have "fits 255 (hex (sha256 [1, 2, 3])) \<and>
             varchar 255 (hex (sha256 [1, 2, 3])) = hex (sha256 [1, 2, 3])"
    by (simp add: fits_short)
  then show ?thesis
    by (simp add: create_route_def validator_defs example_defs failing_gateway_def
        failing_store_def failing_contract_def uploadFile_def
        select_deeds_by_number_def insert_deed_def deeds_constraints_def Let_def
        createDeed_def opt_json_def document_hash_of_def ipfs_hash_of_def deedData_of_def
        fits_opt_def varchar_opt_def fits_short int4_def)
qed

theorem create_with_attachment_survives_backends_witness:
  "validate_create example_body = []
   \<and> str_of (member example_body ''deed_number'') \<notin> set (map deed_number (deeds (db example_system0)))
   \<and> create_constraints (db example_system0) 1 example_body
        (ipfs_hash_of failing_store example_readings (Some (''uploads/deeds/deed-1.pdf'', [1, 2, 3])))
   \<and> (\<exists>e. uploadFile failing_store (random_bytes example_readings) ''uploads/deeds/deed-1.pdf''
             [1, 2, 3] = Inl e)
   \<and> (\<exists>e. fst (createDeed failing_gateway (mock_now example_readings) (random_block example_readings)
                  (deedData_of example_readings 1 example_body (Some (hex (sha256 [1, 2, 3]))))
                  (ledger example_system0)) = Inl e)
   \<and> (\<exists>s'.
         create_route failing_gateway failing_store example_readings 1 example_body
           (Some (''uploads/deeds/deed-1.pdf'', [1, 2, 3])) example_system0 =
             (Response 201
                [(''message'', JStr ''Deed created successfully''),
                 (''deed'', deed_json
                    \<lparr>deed_id = 1, deed_number = ''LD-2024-001'', title = ''Lot 7'',
                     description = None, owner_id = 2, property_address = ''12 Galle Road'',
                     survey_plan_number = None, extent = ''10 perches'', boundaries = None,
                     document_hash = Some (hex (sha256 [1, 2, 3])), ipfs_hash = None,
                     blockchain_transaction_id = None, verification_status = ''pending'',
                     created_by = 1, verified_by = None,
                     created_at = 1700000000000, updated_at = 1700000000000\<rparr>)], s')
         \<and> map document_hash (select_deeds_by_number (db s') ''LD-2024-001'')
             = [Some (hex (sha256 [1, 2, 3]))]
         \<and> map ipfs_hash (select_deeds_by_number (db s') ''LD-2024-001'') = [None]
         \<and> length (hex (sha256 [1, 2, 3])) = 64
         \<and> list_all is_lower_hex (hex (sha256 [1, 2, 3])))"
proof -
  have u1: "uploadFile failing_store (random_bytes example_readings) ''uploads/deeds/deed-1.pdf''
              [1, 2, 3] = Inl (Error ''ECONNREFUSED'')"
    by (simp add: uploadFile_def failing_store_def)
  have ih: "ipfs_hash_of failing_store example_readings
              (Some (''uploads/deeds/deed-1.pdf'', [1, 2, 3])) = None"
    by (simp add: ipfs_hash_of_def u1)
  have u2: "fst (createDeed failing_gateway (mock_now example_readings)
                  (random_block example_readings)
                  (deedData_of example_readings 1 example_body (Some (hex (sha256 [1, 2, 3]))))
                  (ledger example_system0)) = Inl (Error ''UNAVAILABLE'')"
    by (simp add: createDeed_def failing_gateway_def failing_contract_def)
  have h1: "validate_create example_body = []"
    by (simp add: validator_defs example_defs)
  have h2: "str_of (member example_body ''deed_number'')
              \<notin> set (map deed_number (deeds (db example_system0)))"
    by (simp add: example_defs)
  have h3: "create_constraints (db example_system0) 1 example_body
              (ipfs_hash_of failing_store example_readings
                 (Some (''uploads/deeds/deed-1.pdf'', [1, 2, 3])))"
    unfolding ih by (simp add: create_constraints_def validator_defs example_defs int4_def)
  have v: "str_of (member example_body ''deed_number'') = ''LD-2024-001''"
    "str_of (member example_body ''title'') = ''Lot 7''"
    "opt_text (member example_body ''description'') = None"
    "int_of_text (member example_body ''owner_id'') = 2"
    "str_of (member example_body ''property_address'') = ''12 Galle Road''"
    "opt_text (member example_body ''survey_plan_number'') = None"
    "str_of (member example_body ''extent'') = ''10 perches''"
    "opt_text (member example_body ''boundaries'') = None"
    "deeds_id_seq (db example_system0) = 1"
    "insert_time example_readings = 1700000000000"
    by (simp_all add: validator_defs example_defs)
  from create_with_attachment_survives_backends [OF h1 h2 h3, of failing_gateway]
  have "\<exists>tx s'.
         create_route failing_gateway failing_store example_readings 1 example_body
           (Some (''uploads/deeds/deed-1.pdf'', [1, 2, 3])) example_system0 =
             (Response 201
                [(''message'', JStr ''Deed created successfully''),
                 (''deed'', deed_json
                    \<lparr>deed_id = 1, deed_number = ''LD-2024-001'', title = ''Lot 7'',
                     description = None, owner_id = 2, property_address = ''12 Galle Road'',
                     survey_plan_number = None, extent = ''10 perches'', boundaries = None,
                     document_hash = Some (hex (sha256 [1, 2, 3])), ipfs_hash = None,
                     blockchain_transaction_id = tx, verification_status = ''pending'',
                     created_by = 1, verified_by = None,
                     created_at = 1700000000000, updated_at = 1700000000000\<rparr>)], s')
         \<and> tx = None
         \<and> map document_hash (select_deeds_by_number (db s') ''LD-2024-001'')
             = [Some (hex (sha256 [1, 2, 3]))]
         \<and> map ipfs_hash (select_deeds_by_number (db s') ''LD-2024-001'') = [None]
         \<and> length (hex (sha256 [1, 2, 3])) = 64
         \<and> list_all is_lower_hex (hex (sha256 [1, 2, 3]))"
    unfolding v ih u1 u2 by simp
  then show ?thesis
  proof (elim exE conjE)
    fix tx s'
    assume a: "create_route failing_gateway failing_store example_readings 1 example_body
           (Some (''uploads/deeds/deed-1.pdf'', [1, 2, 3])) example_system0 =
             (Response 201
                [(''message'', JStr ''Deed created successfully''),
                 (''deed'', deed_json
                    \<lparr>deed_id = 1, deed_number = ''LD-2024-001'', title = ''Lot 7'',
                     description = None, owner_id = 2, property_address = ''12 Galle Road'',
                     survey_plan_number = None, extent = ''10 perches'', boundaries = None,
                     document_hash = Some (hex (sha256 [1, 2, 3])), ipfs_hash = None,
                     blockchain_transaction_id = tx, verification_status = ''pending'',
                     created_by = 1, verified_by = None,
                     created_at = 1700000000000, updated_at = 1700000000000\<rparr>)], s')"
      and b: "tx = None"
      and c: "map document_hash (select_deeds_by_number (db s') ''LD-2024-001'')
                = [Some (hex (sha256 [1, 2, 3]))]"
      and d: "map ipfs_hash (select_deeds_by_number (db s') ''LD-2024-001'') = [None]"
      and e: "length (hex (sha256 [1, 2, 3])) = 64"
      and f: "list_all is_lower_hex (hex (sha256 [1, 2, 3]))"
    from h1 h2 h3 u1 u2 a [unfolded b] c d e f show ?thesis
      by (intro conjI exI [of _ s'] exI [of _ "Error ''ECONNREFUSED''"]
            exI [of _ "Error ''UNAVAILABLE''"])
  qed
qed

text \<open>
  With the Document Store and the Ledger Gateway both throwing, the create succeeds and
  the response is the success message and the deed row: it has no member that flags the
  degraded outcome, and the row's \<^verbatim>\<open>ipfs_hash\<close> and \<^verbatim>\<open>blockchain_transaction_id\<close> are
  \<^verbatim>\<open>null\<close>.
\<close>

theorem create_response_not_flagged_counterexample:
  "fst (create_route failing_gateway failing_store example_readings 1 example_body
     (Some (''uploads/deeds/deed-1.pdf'', [1, 2, 3])) example_system0) =
   Response 201
     [(''message'', JStr ''Deed created successfully''),
      (''deed'', JObj
         [(''id'', JNum 1),
          (''deed_number'', JStr ''LD-2024-001''),
          (''title'', JStr ''Lot 7''),
          (''description'', JNull),
          (''owner_id'', JNum 2),
          (''property_address'', JStr ''12 Galle Road''),
          (''survey_plan_number'', JNull),
          (''extent'', JStr ''10 perches''),
          (''boundaries'', JNull),
          (''document_hash'', JStr (hex (sha256 [1, 2, 3]))),
          (''ipfs_hash'', JNull),
          (''blockchain_transaction_id'', JNull),
          (''verification_status'', JStr ''pending''),
          (''created_by'', JNum 1),
          (''verified_by'', JNull),
          (''created_at'', JDate 1700000000000),
          (''updated_at'', JDate 1700000000000)])]"
  by (simp add: example_degraded_create created_response_def deed_json_def opt_json_def
        example_row_def)

text \<open>
  What the row holds when the Document Store runs as a mock and only the Ledger Gateway
  throws: \<^verbatim>\<open>ipfs_hash\<close> is the JSON text of the object the mock returned.
\<close>

lemma hex_replicate: "hex (replicate n b) = concat (replicate n (hex_byte b))"
  by (simp add: hex_def map_replicate_const [symmetric] del: map_replicate_const)

lemma example_mock_store_text:
  "ipfs_hash_of mock_store example_readings (Some (''uploads/deeds/deed-1.pdf'', [1, 2, 3])) =
     Some (''{'' @ quote ''hash'' @ '':'' @ quote (''Qm'' @ concat (replicate 32 ''ab'')) @ '','' @
           quote ''size'' @ '':3,'' @
           quote ''path'' @ '':'' @ quote (''/ipfs/Qm'' @ concat (replicate 32 ''ab'')) @ '','' @
           quote ''mock'' @ '':true}'')"
proof -
  have "hex_byte 0xAB = ''ab''" by (simp add: hex_byte_def hex_digit_def)
  then have "hex (random_bytes example_readings) = concat (replicate 32 ''ab'')"
    by (simp add: example_readings_def hex_replicate)
  then show ?thesis
    by (simp add: ipfs_hash_of_def uploadFile_def mock_store_def
        upload_result_def stringify_flat_def stringify_value_def int_text_def dec.simps
        digit_char_def Let_def)
qed

subsection \<open>Verification of a deed\<close>








section \<open>The Verification Workflow\<close>

subsection \<open>Processing a request\<close>

lemma process_request_route_tables:
  "deeds (snd (process_request_route rd u i body d)) = deeds d \<and>
   land_deeds (snd (process_request_route rd u i body d)) = land_deeds d \<and>
   verification_logs (snd (process_request_route rd u i body d)) = verification_logs d \<and>
   users (snd (process_request_route rd u i body d)) = users d"
  by (auto simp: process_request_route_def Let_def update_request_def split: list.splits)

lemma validate_process_status:
  "validate_process body = [] \<Longrightarrow> str_of (member body ''status'') \<in> {''approved'', ''rejected''}"
  by (auto simp: validate_process_def isIn_def split: if_splits)

lemma select_request_id:
  "select_request d i = request # rest \<Longrightarrow> request_id request = i"
proof -
  assume "select_request d i = request # rest"
  then have "request \<in> set (select_request d i)" by simp
  then show ?thesis by (simp add: select_request_def)
qed

lemma filter_map_preserving:
  "(\<And>x. P (f x) = P x) \<Longrightarrow> filter P (map f xs) = map f (filter P xs)"
  by (induction xs) simp_all

lemma select_request_update:
  "select_request (update_request now p1 p2 p3 i d) j =
     map (\<lambda>r. if request_id r = i
               then r\<lparr>request_status := p1, response_details := p2,
                      processed_at := Some now, processed_by := Some p3\<rparr>
               else r) (select_request d j)"
  unfolding select_request_def update_request_def
  by (simp add: filter_map_preserving)

lemma process_pending:
  assumes "validate_process body = []" and "select_request d i = request # rest"
    and "request_status request = ''pending''"
  shows "process_request_route rd u i body d =
           (Response 200
              [(''message'', JStr ''Verification request processed successfully''),
               (''request'', JObj
                  [(''id'', JStr i),
                   (''status'', member body ''status''),
                   (''responseDetails'', opt_json JStr (or_null (member body ''responseDetails''))),
                   (''processedAt'', JDate (update_time rd))])],
            update_request (update_time rd) (str_of (member body ''status''))
              (or_null (member body ''responseDetails'')) (user_id u) i d)"
  using assms by (simp add: process_request_route_def Let_def request_processed_def)

lemma process_not_pending:
  assumes "validate_process body = []" and "select_request d i = request # rest"
    and "request_status request \<noteq> ''pending''"
  shows "process_request_route rd u i body d = (already_processed, d)"
  using assms by (simp add: process_request_route_def Let_def)

lemmas request_defs = validateVerificationRequest_def isUUID_def isIn_def str_of_def member_def
  optional_isLength_max_def is_hex_digit_def or_null_def validate_process_def

lemma request_body_valid: "validateVerificationRequest request_body = []"
  by (simp add: request_defs request_body_def Let_def)

lemma example_first_request:
  "create_request_route example_readings alice request_body requests_database0 =
     (Response 201
        [(''message'', JStr ''Verification request created successfully''),
         (''request'', JObj
            [(''id'', JStr ''123e4567-e89b-12d3-a456-426614174000''),
             (''deedId'', JStr ''9f1c2d3e-4b5a-4c6d-8e7f-0a1b2c3d4e5f''),
             (''requestType'', JStr ''ownership''),
             (''status'', JStr ''pending''),
             (''createdAt'', JDate 1700000000000)])],
      requests_database1)"
  using request_body_valid
  by (simp add: create_request_route_def Let_def str_of_def member_def or_null_def
        request_body_def requests_database0_def requests_database1_def example_database_def
        example_land_deed_def example_request_def alice_def example_readings_def
        pending_requests_def insert_request_def select_land_deed_def request_created_def)

lemmas requests_examples = requests_database1_def requests_database0_def example_database_def
  example_request_def example_land_deed_def

lemma example_select_request:
  "select_request requests_database1 ''123e4567-e89b-12d3-a456-426614174000'' =
     example_request # []"
  by (simp add: select_request_def requests_examples)

lemma approve_body_valid: "validate_process approve_body = []"
  by (simp add: request_defs approve_body_def)

lemma reject_request_body_valid: "validate_process reject_request_body = []"
  by (simp add: request_defs reject_request_body_def)

text \<open>
  Claim C5, as the code has it. Let a request be found by its identifier and the decision
  be valid, and let the handler run with no step of another request between its lookup
  and its update. If the request's status is not \<^verbatim>\<open>pending\<close>, processing fails with
  \<open>AlreadyProcessed\<close> (status 400, ``Request has already been processed'') and the whole
  store, the request and every deed included, is unchanged. If it is \<^verbatim>\<open>pending\<close>,
  processing answers 200 and sets the request's status to the decision, its response
  details, \<^verbatim>\<open>processed_at\<close> and \<^verbatim>\<open>processed_by\<close>, and writes nothing else: no row of
  \<^verbatim>\<open>land_deeds\<close> or \<^verbatim>\<open>deeds\<close> changes. Processing the same request again afterwards, with
  any decision by anyone, changes nothing (a valid second decision fails with
  \<open>AlreadyProcessed\<close>), so the request reflects the first decision only, and the deed
  reflects neither.
\<close>

theorem process_request_only_once:
  assumes "validate_process body = []" and "select_request d i = request # rest"
  shows "(if request_status request \<noteq> ''pending''
          then process_request_route rd u i body d = (already_processed, d)
          else snd (process_request_route rd u i body d) =
                d\<lparr>verification_requests :=
                    map (\<lambda>r. if request_id r = i
                              then r\<lparr>request_status := str_of (member body ''status''),
                                     response_details := or_null (member body ''responseDetails''),
                                     processed_at := Some (update_time rd),
                                     processed_by := Some (user_id u)\<rparr>
                              else r) (verification_requests d)\<rparr>
              \<and> response_status (fst (process_request_route rd u i body d)) = 200
              \<and> snd (process_request_route rd' u' i body'
                       (snd (process_request_route rd u i body d))) =
                  snd (process_request_route rd u i body d)
              \<and> (if validate_process body' = []
                  then fst (process_request_route rd' u' i body'
                              (snd (process_request_route rd u i body d))) = already_processed
                  else response_status (fst (process_request_route rd' u' i body'
                              (snd (process_request_route rd u i body d)))) = 400))
       \<and> land_deeds (snd (process_request_route rd u i body d)) = land_deeds d
       \<and> deeds (snd (process_request_route rd u i body d)) = deeds d
       \<and> land_deeds (snd (process_request_route rd' u' i body'
                            (snd (process_request_route rd u i body d)))) = land_deeds d
       \<and> deeds (snd (process_request_route rd' u' i body'
                       (snd (process_request_route rd u i body d)))) = deeds d"
proof -
  have main: "if request_status request \<noteq> ''pending''
          then process_request_route rd u i body d = (already_processed, d)
          else snd (process_request_route rd u i body d) =
                d\<lparr>verification_requests :=
                    map (\<lambda>r. if request_id r = i
                              then r\<lparr>request_status := str_of (member body ''status''),
                                     response_details := or_null (member body ''responseDetails''),
                                     processed_at := Some (update_time rd),
                                     processed_by := Some (user_id u)\<rparr>
                              else r) (verification_requests d)\<rparr>
              \<and> response_status (fst (process_request_route rd u i body d)) = 200
              \<and> snd (process_request_route rd' u' i body'
                       (snd (process_request_route rd u i body d))) =
                  snd (process_request_route rd u i body d)
              \<and> (if validate_process body' = []
                  then fst (process_request_route rd' u' i body'
                              (snd (process_request_route rd u i body d))) = already_processed
                  else response_status (fst (process_request_route rd' u' i body'
                              (snd (process_request_route rd u i body d)))) = 400)"
  proof (cases "request_status request \<noteq> ''pending''")
    case True
    with assms show ?thesis by (simp add: process_not_pending)
  next
    case False
    then have p: "request_status request = ''pending''" by simp
    define d' where "d' = update_request (update_time rd) (str_of (member body ''status''))
                (or_null (member body ''responseDetails'')) (user_id u) i d"
    have first: "process_request_route rd u i body d =
             (Response 200
                [(''message'', JStr ''Verification request processed successfully''),
                 (''request'', JObj
                    [(''id'', JStr i),
                     (''status'', member body ''status''),
                     (''responseDetails'', opt_json JStr (or_null (member body ''responseDetails''))),
                     (''processedAt'', JDate (update_time rd))])], d')"
      unfolding d'_def by (rule process_pending [OF assms p])
    have rid: "request_id request = i" using assms(2) by (rule select_request_id)
    have st: "str_of (member body ''status'') \<noteq> ''pending''"
      using validate_process_status [OF assms(1)] by auto
    obtain request' rest' where sel': "select_request d' i = request' # rest'"
      and st': "request_status request' \<noteq> ''pending''"
      unfolding d'_def select_request_update assms(2) using rid st by simp
    have second_state: "snd (process_request_route rd' u' i body' d') = d'"
    proof (cases "validate_process body' = []")
      case True
      then show ?thesis using process_not_pending [OF True sel' st'] by simp
    next
      case False
      then show ?thesis by (simp add: process_request_route_def Let_def)
    qed
    have second_resp: "if validate_process body' = []
                    then fst (process_request_route rd' u' i body' d') = already_processed
                    else response_status (fst (process_request_route rd' u' i body' d')) = 400"
    proof (cases "validate_process body' = []")
      case True
      then show ?thesis using process_not_pending [OF True sel' st'] by simp
    next
      case False
      then show ?thesis
        by (simp add: process_request_route_def Let_def validation_failed_def)
    qed
    have dd: "d' = d\<lparr>verification_requests :=
                      map (\<lambda>r. if request_id r = i
                                then r\<lparr>request_status := str_of (member body ''status''),
                                       response_details := or_null (member body ''responseDetails''),
                                       processed_at := Some (update_time rd),
                                       processed_by := Some (user_id u)\<rparr>
                                else r) (verification_requests d)\<rparr>"
      by (simp add: d'_def update_request_def)
    from False second_resp show ?thesis
      unfolding first by (simp add: second_state dd [symmetric])
  qed
  have frame: "land_deeds (snd (process_request_route rd u i body d)) = land_deeds d"
    "deeds (snd (process_request_route rd u i body d)) = deeds d"
    "land_deeds (snd (process_request_route rd' u' i body'
                            (snd (process_request_route rd u i body d)))) = land_deeds d"
    "deeds (snd (process_request_route rd' u' i body'
                       (snd (process_request_route rd u i body d)))) = deeds d"
    by (simp_all add: process_request_route_tables)
  from main frame show ?thesis by (intro conjI)
qed

theorem process_request_only_once_witness:
  "validate_process approve_body = []
   \<and> select_request requests_database1 ''123e4567-e89b-12d3-a456-426614174000'' = [example_request]
   \<and> snd (process_request_route example_readings official
            ''123e4567-e89b-12d3-a456-426614174000'' approve_body requests_database1) =
       processed_database
   \<and> process_request_route example_readings official
        ''123e4567-e89b-12d3-a456-426614174000'' reject_request_body processed_database =
       (already_processed, processed_database)
   \<and> land_deeds processed_database = land_deeds requests_database1"
proof -
  have d: "snd (process_request_route example_readings official
            ''123e4567-e89b-12d3-a456-426614174000'' approve_body requests_database1) =
       processed_database"
    using process_request_only_once [OF approve_body_valid example_select_request,
            of example_readings official]
    by (simp add: example_request_def processed_database_def requests_database1_def
          approve_body_def str_of_def member_def or_null_def official_def example_readings_def)
  from process_request_only_once [OF approve_body_valid example_select_request,
            of example_readings official example_readings official reject_request_body]
  have "process_request_route example_readings official
        ''123e4567-e89b-12d3-a456-426614174000'' reject_request_body processed_database =
       (already_processed, processed_database)
     \<and> land_deeds processed_database = land_deeds requests_database1"
    unfolding d using reject_request_body_valid
    by (simp add: example_request_def prod_eq_iff)
  with d approve_body_valid example_select_request show ?thesis by simp
qed

text \<open>
  A pending request of kind \<^verbatim>\<open>authenticity\<close> is rejected, and a second decision on it,
  an approval, fails with \<open>AlreadyProcessed\<close>. After both calls the request is
  \<^verbatim>\<open>rejected\<close>, and the deed it refers to still has the verification status \<^verbatim>\<open>pending\<close>:
  the deed's status reflects no decision at all, not the first one.
\<close>

theorem processed_twice_deed_status_counterexample:
  "process_request_route example_readings official
     ''123e4567-e89b-12d3-a456-426614174000'' reject_request_body authenticity_database =
     (Response 200
        [(''message'', JStr ''Verification request processed successfully''),
         (''request'', JObj
            [(''id'', JStr ''123e4567-e89b-12d3-a456-426614174000''),
             (''status'', JStr ''rejected''),
             (''responseDetails'', JNull),
             (''processedAt'', JDate 1700000000005)])],
      rejected_database)
   \<and> process_request_route second_readings official
       ''123e4567-e89b-12d3-a456-426614174000'' approve_body rejected_database =
     (already_processed, rejected_database)
   \<and> map request_status (verification_requests rejected_database) = [''rejected'']
   \<and> map request_deed_id (verification_requests rejected_database) =
       map ld_id (land_deeds rejected_database)
   \<and> map ld_verification_status (land_deeds rejected_database) = [''pending'']
   \<and> deeds rejected_database = []"
  by (simp add: process_request_route_def select_request_def update_request_def Let_def
        request_defs approve_body_def reject_request_body_def requests_examples
        authenticity_database_def rejected_database_def official_def
        example_readings_def second_readings_def opt_json_def request_processed_def)

text \<open>
  The lookup and the update of the handler are two awaited queries, and the update has
  no condition on the status. When two decisions on one pending request interleave, both
  lookups see \<^verbatim>\<open>pending\<close>, both handlers answer 200, and the second update overwrites
  the first decision.
\<close>

lemma interleaved_decisions_overwrite:
  "schedule mock_gateway mock_store [0, 1, 0, 1]
     ([Process_select example_readings official
         ''123e4567-e89b-12d3-a456-426614174000'' approve_body,
       Process_select second_readings second_official
         ''123e4567-e89b-12d3-a456-426614174000'' reject_request_body],
      \<lparr>db = requests_database1, ledger = Map.empty\<rparr>) =
   ([Done (request_processed example_readings
             ''123e4567-e89b-12d3-a456-426614174000'' approve_body),
     Done (request_processed second_readings
             ''123e4567-e89b-12d3-a456-426614174000'' reject_request_body)],
    \<lparr>db = overwritten_database, ledger = Map.empty\<rparr>)
   \<and> map request_status (verification_requests overwritten_database) = [''rejected'']"
  by (simp add: select_request_def update_request_def Let_def
        request_defs approve_body_def reject_request_body_def requests_examples
        overwritten_database_def official_def second_official_def
        example_readings_def second_readings_def)

subsection \<open>At most one pending request\<close>

lemma at_most_one_row:
  "distinct (map f xs) \<Longrightarrow> length (filter (\<lambda>r. f r = v) xs) \<le> 1"
proof (induction xs)
  case Nil
  then show ?case by simp
next
  case (Cons x xs)
  show ?case
  proof (cases "f x = v")
    case True
    with Cons.prems have "v \<notin> f ` set xs" by auto
    then have "filter (\<lambda>r. f r = v) xs = []" by (force simp: filter_empty_conv)
    with True show ?thesis by simp
  next
    case False
    with Cons show ?thesis by simp
  qed
qed

lemma pending_requests_filter:
  "pending_requests d deedId kind =
     filter (\<lambda>r. (request_deed_id r, request_type r) = (deedId, kind))
       (filter (\<lambda>r. request_status r = ''pending'') (verification_requests d))"
  by (auto simp: pending_requests_def intro: filter_cong)

lemma pending_requests_length:
  "at_most_one_pending d \<Longrightarrow> length (pending_requests d deedId kind) \<le> 1"
  unfolding pending_requests_filter at_most_one_pending_def by (rule at_most_one_row)

lemma create_request_route_cases:
  "snd (create_request_route rd u body d) = d
   \<or> (pending_requests d (str_of (member body ''deedId'')) (str_of (member body ''requestType'')) = []
      \<and> (\<exists>r. snd (create_request_route rd u body d) =
                 d\<lparr>verification_requests := verification_requests d @ [r]\<rparr>
              \<and> request_deed_id r = str_of (member body ''deedId'')
              \<and> request_type r = str_of (member body ''requestType'')
              \<and> request_status r = ''pending''))"
  by (auto simp: create_request_route_def Let_def insert_request_def
        split: list.splits if_splits)

text \<open>
  A request handler that runs with no step of another request between its lookup of the
  pending requests and its insert keeps the invariant.
\<close>

lemma create_request_route_invariant:
  assumes "at_most_one_pending d"
  shows "at_most_one_pending (snd (create_request_route rd u body d))"
proof -
  from create_request_route_cases [of rd u body d]
  show ?thesis
  proof
    assume "snd (create_request_route rd u body d) = d"
    with assms show ?thesis by simp
  next
    assume "pending_requests d (str_of (member body ''deedId''))
              (str_of (member body ''requestType'')) = []
      \<and> (\<exists>r. snd (create_request_route rd u body d) =
                 d\<lparr>verification_requests := verification_requests d @ [r]\<rparr>
              \<and> request_deed_id r = str_of (member body ''deedId'')
              \<and> request_type r = str_of (member body ''requestType'')
              \<and> request_status r = ''pending'')"
    then obtain r where n0: "pending_requests d (str_of (member body ''deedId''))
              (str_of (member body ''requestType'')) = []"
      and e: "snd (create_request_route rd u body d) =
                 d\<lparr>verification_requests := verification_requests d @ [r]\<rparr>"
      and rd: "request_deed_id r = str_of (member body ''deedId'')"
      and rt: "request_type r = str_of (member body ''requestType'')"
      and p: "request_status r = ''pending''" by blast
    from n0 rd rt have none: "pending_requests d (request_deed_id r) (request_type r) = []"
      by simp
    from none have "(request_deed_id r, request_type r) \<notin>
        set (map (\<lambda>r. (request_deed_id r, request_type r))
               (filter (\<lambda>r. request_status r = ''pending'') (verification_requests d)))"
      by (force simp: pending_requests_def filter_empty_conv)
    with assms p show ?thesis unfolding e at_most_one_pending_def by simp
  qed
qed

lemma pending_after_update:
  "p1 \<noteq> ''pending'' \<Longrightarrow>
     filter (\<lambda>r. request_status r = ''pending'')
       (map (\<lambda>r. if request_id r = i
                 then r\<lparr>request_status := p1, response_details := p2,
                        processed_at := Some now, processed_by := Some p3\<rparr>
                 else r) xs) =
     filter (\<lambda>r. request_id r \<noteq> i) (filter (\<lambda>r. request_status r = ''pending'') xs)"
  by (induction xs) auto

lemma process_request_route_cases:
  "snd (process_request_route rd u i body d) = d
   \<or> (str_of (member body ''status'') \<noteq> ''pending''
      \<and> snd (process_request_route rd u i body d) =
          update_request (update_time rd) (str_of (member body ''status''))
            (or_null (member body ''responseDetails'')) (user_id u) i d)"
proof (cases "validate_process body = []")
  case True
  from validate_process_status [OF True] have "str_of (member body ''status'') \<noteq> ''pending''"
    by auto
  then show ?thesis
    by (auto simp: process_request_route_def Let_def split: list.splits)
next
  case False
  then show ?thesis by (simp add: process_request_route_def Let_def)
qed

lemma process_request_route_invariant:
  assumes "at_most_one_pending d"
  shows "at_most_one_pending (snd (process_request_route rd u i body d))"
proof -
  from process_request_route_cases [of rd u i body d]
  show ?thesis
  proof
    assume "snd (process_request_route rd u i body d) = d"
    with assms show ?thesis by simp
  next
    assume "str_of (member body ''status'') \<noteq> ''pending''
      \<and> snd (process_request_route rd u i body d) =
          update_request (update_time rd) (str_of (member body ''status''))
            (or_null (member body ''responseDetails'')) (user_id u) i d"
    then have np: "str_of (member body ''status'') \<noteq> ''pending''"
      and e: "snd (process_request_route rd u i body d) =
          update_request (update_time rd) (str_of (member body ''status''))
            (or_null (member body ''responseDetails'')) (user_id u) i d" by auto
    from assms have "distinct (map (\<lambda>r. (request_deed_id r, request_type r))
        (filter (\<lambda>r. request_id r \<noteq> i)
           (filter (\<lambda>r. request_status r = ''pending'') (verification_requests d))))"
      unfolding at_most_one_pending_def by (rule distinct_map_filter)
    then show ?thesis
      unfolding e at_most_one_pending_def update_request_def
      by (simp add: pending_after_update [OF np])
  qed
qed

lemma create_request_route_pending:
  assumes "pending_requests d (str_of (member body ''deedId''))
             (str_of (member body ''requestType'')) \<noteq> []"
  shows "snd (create_request_route rd u body d) = d"
  using create_request_route_cases [of rd u body d] assms by auto

lemma create_request_route_conflict:
  assumes "validateVerificationRequest body = []"
    and "select_land_deed d (str_of (member body ''deedId'')) = deed # rest"
    and "ld_owner_id deed = user_id u \<or> role u \<noteq> ''citizen''"
    and "pending_requests d (str_of (member body ''deedId''))
             (str_of (member body ''requestType'')) \<noteq> []"
  shows "create_request_route rd u body d = (conflict_response, d)"
  using assms by (auto simp: create_request_route_def Let_def)

text \<open>
  Claim C6. The lookup of the pending requests and the insert are two awaited queries of
  the handler, on separate clients of the pool and outside any transaction, and the
  table has no constraint on the pair of deed and kind. Two requests for the same deed
  and kind whose queries interleave (lookup of the deed, lookup of the deed, lookup of
  the pending requests, lookup of the pending requests, insert, insert) both find no
  pending request, both insert, and both answer 201: the state they reach holds two
  pending requests for one deed and kind.
\<close>

theorem concurrent_requests_both_pending:
  "schedule mock_gateway mock_store [0, 1, 0, 1, 0, 1]
     ([Request_deed example_readings alice request_body,
       Request_deed second_readings alice request_body],
      \<lparr>db = requests_database0, ledger = Map.empty\<rparr>) =
   ([Done (request_created example_request), Done (request_created second_request)],
    \<lparr>db = two_pending_database, ledger = Map.empty\<rparr>)
   \<and> reachable [Done (request_created example_request), Done (request_created second_request)]
       \<lparr>db = two_pending_database, ledger = Map.empty\<rparr>
   \<and> response_status (request_created example_request) = 201
   \<and> response_status (request_created second_request) = 201
   \<and> pending_requests two_pending_database ''9f1c2d3e-4b5a-4c6d-8e7f-0a1b2c3d4e5f'' ''ownership'' =
       [example_request, second_request]
   \<and> \<not> at_most_one_pending two_pending_database"
proof -
  have run: "schedule mock_gateway mock_store [0, 1, 0, 1, 0, 1]
     ([Request_deed example_readings alice request_body,
       Request_deed second_readings alice request_body],
      \<lparr>db = requests_database0, ledger = Map.empty\<rparr>) =
   ([Done (request_created example_request), Done (request_created second_request)],
    \<lparr>db = two_pending_database, ledger = Map.empty\<rparr>)"
    using request_body_valid
    by (simp add: Let_def str_of_def member_def or_null_def
        request_body_def requests_database0_def two_pending_database_def example_database_def
        example_land_deed_def example_request_def second_request_def alice_def
        example_readings_def second_readings_def
        pending_requests_def insert_request_def select_land_deed_def)
  have "reachable [] \<lparr>db = requests_database0, ledger = Map.empty\<rparr>"
    by (rule reachable.initial) (simp_all add: requests_database0_def example_database_def)
  then have "reachable [Request_deed example_readings alice request_body]
               \<lparr>db = requests_database0, ledger = Map.empty\<rparr>"
    using reachable.arrive [of "[]" _ "Request_deed example_readings alice request_body"]
    by simp
  then have "reachable [Request_deed example_readings alice request_body,
                        Request_deed second_readings alice request_body]
               \<lparr>db = requests_database0, ledger = Map.empty\<rparr>"
    using reachable.arrive [of "[Request_deed example_readings alice request_body]" _
            "Request_deed second_readings alice request_body"]
    by simp
  then have reach: "reachable
       [Done (request_created example_request), Done (request_created second_request)]
       \<lparr>db = two_pending_database, ledger = Map.empty\<rparr>"
    using run by (rule reachable_schedule)
  have p: "pending_requests two_pending_database
             ''9f1c2d3e-4b5a-4c6d-8e7f-0a1b2c3d4e5f'' ''ownership'' =
           [example_request, second_request]"
    by (simp add: pending_requests_def two_pending_database_def requests_database0_def
          example_database_def example_request_def second_request_def)
  have n: "\<not> at_most_one_pending two_pending_database"
    by (simp add: at_most_one_pending_def two_pending_database_def requests_database0_def
          example_database_def example_request_def second_request_def)
  from run reach p n show ?thesis by (simp add: request_created_def)
qed

subsection \<open>What processing leaves alone\<close>

text \<open>
  Claim C7, as the code has it. Processing a pending request with a valid decision
  answers 200 and sets the status of the request, and that is all it does, whatever the
  request's kind (\<^verbatim>\<open>ownership\<close>, \<^verbatim>\<open>authenticity\<close> or \<^verbatim>\<open>history\<close>): the rows of
  \<^verbatim>\<open>land_deeds\<close> and \<^verbatim>\<open>deeds\<close> keep their verification status, and no verification log
  is appended.
\<close>

theorem process_request_leaves_deed_and_logs:
  assumes "validate_process body = []" and "select_request d i = request # rest"
    and "request_status request = ''pending''"
  shows "response_status (fst (process_request_route rd u i body d)) = 200
       \<and> land_deeds (snd (process_request_route rd u i body d)) = land_deeds d
       \<and> deeds (snd (process_request_route rd u i body d)) = deeds d
       \<and> verification_logs (snd (process_request_route rd u i body d)) = verification_logs d
       \<and> map request_status (select_request (snd (process_request_route rd u i body d)) i) =
           map (\<lambda>r. str_of (member body ''status'')) (select_request d i)"
proof -
  have "map request_status (select_request (update_request (update_time rd)
            (str_of (member body ''status'')) (or_null (member body ''responseDetails''))
            (user_id u) i d) i) =
          map (\<lambda>r. str_of (member body ''status'')) (select_request d i)"
    unfolding select_request_update by (simp add: select_request_def)
  then show ?thesis
    using process_pending [OF assms, of rd u] process_request_route_tables [of rd u i body d]
    by simp
qed

theorem process_request_leaves_deed_and_logs_witness:
  "validate_process approve_body = []
   \<and> select_request requests_database1 ''123e4567-e89b-12d3-a456-426614174000'' = [example_request]
   \<and> request_status example_request = ''pending''
   \<and> request_type example_request = ''ownership''
   \<and> response_status (fst (process_request_route example_readings official
        ''123e4567-e89b-12d3-a456-426614174000'' approve_body requests_database1)) = 200
   \<and> land_deeds (snd (process_request_route example_readings official
        ''123e4567-e89b-12d3-a456-426614174000'' approve_body requests_database1)) =
       [example_land_deed]
   \<and> verification_logs (snd (process_request_route example_readings official
        ''123e4567-e89b-12d3-a456-426614174000'' approve_body requests_database1)) = []"
proof -
  have p: "request_status example_request = ''pending''"
    by (simp add: example_request_def)
  from process_request_leaves_deed_and_logs [OF approve_body_valid example_select_request p,
         of example_readings official]
       approve_body_valid example_select_request p
  show ?thesis by (simp add: requests_examples)
qed

text \<open>
  Approving a pending request of kind \<^verbatim>\<open>ownership\<close> answers 200 and marks the request
  approved, while the referenced deed keeps the verification status \<^verbatim>\<open>pending\<close> and no
  verification log is written.
\<close>

theorem process_ownership_request_counterexample:
  "process_request_route example_readings official
     ''123e4567-e89b-12d3-a456-426614174000'' approve_body requests_database1 =
     (Response 200
        [(''message'', JStr ''Verification request processed successfully''),
         (''request'', JObj
            [(''id'', JStr ''123e4567-e89b-12d3-a456-426614174000''),
             (''status'', JStr ''approved''),
             (''responseDetails'', JStr ''title checked''),
             (''processedAt'', JDate 1700000000005)])],
      processed_database)
   \<and> request_type example_request = ''ownership''
   \<and> request_deed_id example_request = ld_id example_land_deed
   \<and> land_deeds processed_database = [example_land_deed]
   \<and> ld_verification_status example_land_deed = ''pending''
   \<and> verification_logs processed_database = []"
  by (simp add: process_request_route_def select_request_def update_request_def Let_def
        request_defs approve_body_def requests_examples processed_database_def official_def
        example_readings_def opt_json_def request_processed_def)

text \<open>
  The verification logs have two writers: the verify handler of the Deed Coordinator and
  the verify handler of the ledger routes, which appends a log of the type
  \<^verbatim>\<open>blockchain_verification\<close> when the deed number in its path is the identifier of a
  deed row.
\<close>

lemma example_blockchain_verify_log:
  "blockchain_verify_route mock_gateway example_readings 2 ''1'' blockchain_verify_body
     example_system1 =
     (Response 200 [(''transactionId'', JStr ''mock_verification_1700000000003''),
                    (''verified'', JBool True),
                    (''timestamp'', JDate 1700000000003)],
      example_system1\<lparr>db := (db example_system1)\<lparr>logs_id_seq := 2,
          verification_logs :=
            [\<lparr>log_id = 1, log_deed_id = 1, log_verified_by = 2,
              verification_type = ''blockchain_verification'',
              verification_result = Some ''verified'', log_notes = None,
              log_created_at = 1700000000000\<rparr>]\<rparr>\<rparr>)"
  by (simp add: blockchain_verify_route_def insert_blockchain_log_def insert_log_def Let_def
        verifyDeed_def mock_gateway_def example_readings_def blockchain_verify_body_def
        example_system1_def example_database_def example_row_def validator_defs column_defs
        verificationData_of_def dec.simps digit_char_def)

end
